theory Spec2Isabelle
  imports Main "HOL-Library.AList"
begin

section \<open>JavaScript values and objects\<close>

text \<open>
  The authentication backend is JavaScript: user records, registration data and profile
  updates are plain objects whose fields hold dynamically typed values. A value is one of
  the constructors below; an object is an association list from property names to values
  (property order as in the engine, lookups by \<open>map_of\<close>).

  Strings come in two forms. \<open>Str s\<close> is ordinary text. \<open>Jwt claims key\<close> stands for
  the compact serialisation that the \<open>jsonwebtoken\<close> package produces for the claim set
  \<open>claims\<close> (including \<open>iat\<close> and \<open>exp\<close>) under the HMAC key \<open>key\<close>: the package is an
  external dependency, HS256 is deterministic, and a token string is determined by its
  claims and its key, so the string is kept symbolic. A \<open>Date\<close> carries milliseconds
  since the epoch.
\<close>

datatype jsval =
    Undefined
  | Null
  | Bool bool
  | Num int
  | Date nat
  | Str string
  | Arr "jsval list"
  | Jwt "(string \<times> jsval) list" string

type_synonym obj = "(string \<times> jsval) list"

text \<open>Property read \<open>o.k\<close>: a missing property reads as \<open>undefined\<close>.\<close>

definition get_prop :: "obj \<Rightarrow> string \<Rightarrow> jsval" where
  "get_prop ob k = (case map_of ob k of Some v \<Rightarrow> v | None \<Rightarrow> Undefined)"

text \<open>Property write \<open>o.k = v\<close>: replaces in place or appends.\<close>

definition put_prop :: "string \<Rightarrow> jsval \<Rightarrow> obj \<Rightarrow> obj" where
  "put_prop k v ob = AList.update k v ob"

text \<open>Object spread \<open>{...a, ...b}\<close>: the properties of \<open>b\<close> override those of \<open>a\<close>.\<close>

definition spread :: "obj \<Rightarrow> obj \<Rightarrow> obj" where
  "spread a b = AList.merge a b"

fun truthy :: "jsval \<Rightarrow> bool" where
  "truthy Undefined = False"
| "truthy Null = False"
| "truthy (Bool b) = b"
| "truthy (Num n) = (n \<noteq> 0)"
| "truthy (Date _) = True"
| "truthy (Str s) = (s \<noteq> [])"
| "truthy (Arr _) = True"
| "truthy (Jwt _ _) = True"

text \<open>\<open>typeof v === 'string'\<close>\<close>

fun isString :: "jsval \<Rightarrow> bool" where
  "isString (Str _) = True"
| "isString (Jwt _ _) = True"
| "isString _ = False"

text \<open>\<open>a || b\<close>\<close>

definition js_or :: "jsval \<Rightarrow> jsval \<Rightarrow> jsval" where
  "js_or a b = (if truthy a then a else b)"

text \<open>
  \<open>a === b\<close>: primitives compare by value; arrays and dates are objects and compare by
  reference, and the two sides of every comparison in the code below are never the same
  reference.
\<close>

fun strict_eq :: "jsval \<Rightarrow> jsval \<Rightarrow> bool" where
  "strict_eq (Arr _) _ = False"
| "strict_eq (Date _) _ = False"
| "strict_eq a b = (a = b)"

section \<open>Errors\<close>

text \<open>
  Every \<open>throw\<close> is a value. \<open>Error\<close> is the built-in class (what \<open>utils/jwt.js\<close> and
  \<open>utils/password.js\<close> throw), \<open>TypeError\<close> what the engine throws on a call on a
  non-object, \<open>JsonWebTokenError\<close> and \<open>TokenExpiredError\<close> come from the
  \<open>jsonwebtoken\<close> package, the rest are the \<open>APIError\<close> subclasses of
  \<open>utils/errors.js\<close>. The string is the message.
\<close>

datatype error =
    Error string
  | TypeError string
  | JsonWebTokenError string
  | TokenExpiredError string
  | ValidationError string
  | AuthenticationError string
  | NotFoundError string
  | ConflictError string

fun statusCode :: "error \<Rightarrow> nat option" where
  "statusCode (ValidationError _) = Some 400"
| "statusCode (AuthenticationError _) = Some 401"
| "statusCode (NotFoundError _) = Some 404"
| "statusCode (ConflictError _) = Some 409"
| "statusCode _ = None"

text \<open>
  The \<open>name\<close> property of an error: \<open>APIError\<close> sets it to the name of the class, the
  built-in classes and those of \<open>jsonwebtoken\<close> carry their own. The \<open>catch\<close> blocks of
  \<open>utils/jwt.js\<close> test it.
\<close>

fun error_name :: "error \<Rightarrow> string" where
  "error_name (Error _) = ''Error''"
| "error_name (TypeError _) = ''TypeError''"
| "error_name (JsonWebTokenError _) = ''JsonWebTokenError''"
| "error_name (TokenExpiredError _) = ''TokenExpiredError''"
| "error_name (ValidationError _) = ''ValidationError''"
| "error_name (AuthenticationError _) = ''AuthenticationError''"
| "error_name (NotFoundError _) = ''NotFoundError''"
| "error_name (ConflictError _) = ''ConflictError''"

section \<open>Configuration and external collaborators\<close>

text \<open>
  \<open>config/index.js\<close> together with the collaborators the service calls: the bcrypt
  package (\<open>bcrypt_hash\<close> returns the hash or the message of the error it raised;
  \<open>bcrypt_compare\<close> likewise for the comparison), the mail transport (\<open>sendMail\<close>
  returns the message of the error it raised, if any, for a recipient and a subject) and
  the five optional event hooks (a hook observes the user it is given and returns, or
  throws the error it answers with). Expiry windows are in seconds, as
  \<open>jsonwebtoken\<close> reads them.
\<close>

record env =
  jwt_secret :: string
  jwt_expiresIn :: nat
  jwt_refreshSecret :: string
  jwt_refreshExpiresIn :: nat
  emailVerificationExpiresIn :: nat
  passwordResetExpiresIn :: nat
  emailVerification :: bool
  onRegister :: "(obj \<Rightarrow> error option) option"
  onLogin :: "(obj \<Rightarrow> error option) option"
  onLogout :: "(obj option \<Rightarrow> error option) option"
  onPasswordReset :: "(obj \<Rightarrow> error option) option"
  onEmailVerified :: "(obj \<Rightarrow> error option) option"
  bcrypt_hash :: "jsval \<Rightarrow> string + jsval"
  bcrypt_compare :: "jsval \<Rightarrow> jsval \<Rightarrow> string + bool"
  sendMail :: "jsval \<Rightarrow> string \<Rightarrow> string option"

text \<open>\<open>if (hooks?.h) await hooks.h(x)\<close>: the error the hook throws, if it is set and throws.\<close>

definition run_hook :: "('a \<Rightarrow> error option) option \<Rightarrow> 'a \<Rightarrow> error option" where
  "run_hook h x = (case h of None \<Rightarrow> None | Some f \<Rightarrow> f x)"

section \<open>utils/jwt.js\<close>

text \<open>
  \<open>jwt.sign(payload, secret, {expiresIn})\<close> stamps the payload with
  \<open>iat = floor(Date.now() / 1000)\<close> and \<open>exp = iat + expiresIn\<close> and signs it;
  \<open>jwt.verify(token, secret)\<close> rejects a string that is not a token signed with
  \<open>secret\<close> (\<open>JsonWebTokenError\<close>), then a token whose \<open>exp\<close> is not after the clock
  (\<open>TokenExpiredError\<close>), and otherwise returns the claims. \<open>now\<close> is the clock in
  milliseconds. The secrets of \<open>config/index.js\<close> are never empty (each has a default),
  so signing does not fail.
\<close>

definition jwt_sign :: "obj \<Rightarrow> string \<Rightarrow> nat \<Rightarrow> nat \<Rightarrow> jsval" where
  "jwt_sign payload secret expiresIn now =
     Jwt (put_prop ''exp'' (Num (int (now div 1000 + expiresIn)))
           (put_prop ''iat'' (Num (int (now div 1000))) payload)) secret"

fun jwt_verify :: "jsval \<Rightarrow> string \<Rightarrow> nat \<Rightarrow> error + obj" where
  "jwt_verify (Jwt claims key) secret now =
     (if key \<noteq> secret then Inl (JsonWebTokenError ''invalid signature'')
      else (case get_prop claims ''exp'' of
              Undefined \<Rightarrow> Inr claims
            | Num e \<Rightarrow> if e \<le> int (now div 1000) then Inl (TokenExpiredError ''jwt expired'')
                        else Inr claims
            | _ \<Rightarrow> Inl (JsonWebTokenError ''invalid exp value'')))"
| "jwt_verify (Str s) secret now =
     (if s = [] then Inl (JsonWebTokenError ''jwt must be provided'')
      else Inl (JsonWebTokenError ''jwt malformed''))"
| "jwt_verify Undefined secret now = Inl (JsonWebTokenError ''jwt must be provided'')"
| "jwt_verify Null secret now = Inl (JsonWebTokenError ''jwt must be provided'')"
| "jwt_verify _ secret now = Inl (JsonWebTokenError ''jwt must be a string'')"

definition generateAccessToken :: "env \<Rightarrow> nat \<Rightarrow> obj \<Rightarrow> jsval" where
  "generateAccessToken cfg now payload =
     jwt_sign [(''id'', get_prop payload ''id''),
               (''email'', get_prop payload ''email''),
               (''role'', js_or (get_prop payload ''role'') (Str ''user''))]
              (jwt_secret cfg) (jwt_expiresIn cfg) now"

definition generateRefreshToken :: "env \<Rightarrow> nat \<Rightarrow> obj \<Rightarrow> jsval" where
  "generateRefreshToken cfg now payload =
     jwt_sign [(''id'', get_prop payload ''id''), (''type'', Str ''refresh'')]
              (jwt_refreshSecret cfg) (jwt_refreshExpiresIn cfg) now"

datatype tokens = Tokens (accessToken: jsval) (refreshToken_of: jsval)

definition generateTokens :: "env \<Rightarrow> nat \<Rightarrow> obj \<Rightarrow> tokens" where
  "generateTokens cfg now user =
     Tokens (generateAccessToken cfg now
               [(''id'', get_prop user ''id''), (''email'', get_prop user ''email''),
                (''role'', get_prop user ''role'')])
            (generateRefreshToken cfg now [(''id'', get_prop user ''id'')])"

text \<open>
  The \<open>catch\<close> block shared by the verifiers: the two error classes of the package are
  replaced by a plain \<open>Error\<close> with the verifier's own message, anything else (the
  \<open>Error('Invalid token type')\<close> thrown inside the \<open>try\<close> included) is rethrown as it is.
\<close>

fun rethrow :: "string \<Rightarrow> string \<Rightarrow> error \<Rightarrow> error" where
  "rethrow expired invalid (TokenExpiredError _) = Error expired"
| "rethrow expired invalid (JsonWebTokenError _) = Error invalid"
| "rethrow expired invalid e = e"

definition verifyAccessToken :: "env \<Rightarrow> nat \<Rightarrow> jsval \<Rightarrow> error + obj" where
  "verifyAccessToken cfg now token =
     (case jwt_verify token (jwt_secret cfg) now of
        Inr decoded \<Rightarrow> Inr decoded
      | Inl e \<Rightarrow> Inl (rethrow ''Access token has expired'' ''Invalid access token'' e))"

definition verifyRefreshToken :: "env \<Rightarrow> nat \<Rightarrow> jsval \<Rightarrow> error + obj" where
  "verifyRefreshToken cfg now token =
     (case jwt_verify token (jwt_refreshSecret cfg) now of
        Inr decoded \<Rightarrow>
          if get_prop decoded ''type'' \<noteq> Str ''refresh''
          then Inl (rethrow ''Refresh token has expired'' ''Invalid refresh token''
                      (Error ''Invalid token type''))
          else Inr decoded
      | Inl e \<Rightarrow> Inl (rethrow ''Refresh token has expired'' ''Invalid refresh token'' e))"

definition generateEmailVerificationToken :: "env \<Rightarrow> nat \<Rightarrow> jsval \<Rightarrow> jsval" where
  "generateEmailVerificationToken cfg now userId =
     jwt_sign [(''id'', userId), (''type'', Str ''email-verification'')]
              (jwt_secret cfg) (emailVerificationExpiresIn cfg) now"

definition verifyEmailVerificationToken :: "env \<Rightarrow> nat \<Rightarrow> jsval \<Rightarrow> error + obj" where
  "verifyEmailVerificationToken cfg now token =
     (case jwt_verify token (jwt_secret cfg) now of
        Inr decoded \<Rightarrow>
          if get_prop decoded ''type'' \<noteq> Str ''email-verification''
          then Inl (rethrow ''Email verification token has expired''
                      ''Invalid email verification token'' (Error ''Invalid token type''))
          else Inr decoded
      | Inl e \<Rightarrow> Inl (rethrow ''Email verification token has expired''
                        ''Invalid email verification token'' e))"

definition generatePasswordResetToken :: "env \<Rightarrow> nat \<Rightarrow> jsval \<Rightarrow> jsval" where
  "generatePasswordResetToken cfg now userId =
     jwt_sign [(''id'', userId), (''type'', Str ''password-reset'')]
              (jwt_secret cfg) (passwordResetExpiresIn cfg) now"

definition verifyPasswordResetToken :: "env \<Rightarrow> nat \<Rightarrow> jsval \<Rightarrow> error + obj" where
  "verifyPasswordResetToken cfg now token =
     (case jwt_verify token (jwt_secret cfg) now of
        Inr decoded \<Rightarrow>
          if get_prop decoded ''type'' \<noteq> Str ''password-reset''
          then Inl (rethrow ''Password reset token has expired''
                      ''Invalid password reset token'' (Error ''Invalid token type''))
          else Inr decoded
      | Inl e \<Rightarrow> Inl (rethrow ''Password reset token has expired''
                        ''Invalid password reset token'' e))"

section \<open>utils/password.js\<close>

definition hashPassword :: "env \<Rightarrow> jsval \<Rightarrow> error + jsval" where
  "hashPassword cfg password =
     (if \<not> truthy password \<or> \<not> isString password
      then Inl (Error ''Password must be a non-empty string'')
      else (case bcrypt_hash cfg password of
              Inr hashedPassword \<Rightarrow> Inr hashedPassword
            | Inl msg \<Rightarrow> Inl (Error (''Failed to hash password: '' @ msg))))"

definition comparePassword :: "env \<Rightarrow> jsval \<Rightarrow> jsval \<Rightarrow> error + bool" where
  "comparePassword cfg password hashedPassword =
     (if \<not> truthy password \<or> \<not> isString password
      then Inl (Error ''Password must be a non-empty string'')
      else if \<not> truthy hashedPassword \<or> \<not> isString hashedPassword
      then Inl (Error ''Hashed password must be a non-empty string'')
      else (case bcrypt_compare cfg password hashedPassword of
              Inr isMatch \<Rightarrow> Inr isMatch
            | Inl msg \<Rightarrow> Inl (Error (''Failed to compare passwords: '' @ msg))))"

section \<open>utils/email.js\<close>

definition sendEmail :: "env \<Rightarrow> jsval \<Rightarrow> string \<Rightarrow> error + unit" where
  "sendEmail cfg to subject =
     (if \<not> truthy to \<or> subject = []
      then Inl (Error ''Email requires to, subject, and html fields'')
      else (case sendMail cfg to subject of
              None \<Rightarrow> Inr ()
            | Some msg \<Rightarrow> Inl (Error (''Failed to send email: '' @ msg))))"

definition sendWelcomeEmail :: "env \<Rightarrow> jsval \<Rightarrow> error + unit" where
  "sendWelcomeEmail cfg email = sendEmail cfg email ''Welcome to Our Platform!''"

definition sendVerificationEmail :: "env \<Rightarrow> jsval \<Rightarrow> error + unit" where
  "sendVerificationEmail cfg email = sendEmail cfg email ''Verify Your Email Address''"

definition sendPasswordResetEmail :: "env \<Rightarrow> jsval \<Rightarrow> error + unit" where
  "sendPasswordResetEmail cfg email = sendEmail cfg email ''Reset Your Password''"

definition sendPasswordChangedEmail :: "env \<Rightarrow> jsval \<Rightarrow> error + unit" where
  "sendPasswordChangedEmail cfg email = sendEmail cfg email ''Password Changed Successfully''"

section \<open>models/user.js\<close>

text \<open>\<open>const { password, refreshTokens, ...sanitized } = user\<close>\<close>

definition sanitizeUser :: "obj \<Rightarrow> obj" where
  "sanitizeUser user = AList.delete ''refreshTokens'' (AList.delete ''password'' user)"

section \<open>models/adapters/memory.js\<close>

text \<open>
  The adapter's \<open>Map\<close> from ids to user objects, in insertion order. \<open>new Date()\<close> is the
  clock reading \<open>now\<close> handed to each operation, \<open>crypto.randomUUID()\<close> the string
  \<open>uuid\<close> handed to \<open>createUser\<close>.
\<close>

type_synonym db = "(string \<times> obj) list"

text \<open>\<open>this.users.get(id)\<close>: the keys of the map are the id strings.\<close>

fun users_get :: "db \<Rightarrow> jsval \<Rightarrow> obj option" where
  "users_get users (Str k) = map_of users k"
| "users_get users _ = None"

text \<open>
  \<open>s.toLowerCase()\<close> on ASCII text; on a value that is not a string the call throws.
  (A signed token is never used as an email address: its lower-casing is not modelled.)
\<close>

definition lower_char :: "char \<Rightarrow> char" where
  "lower_char c =
     (case map_of (zip ''ABCDEFGHIJKLMNOPQRSTUVWXYZ'' ''abcdefghijklmnopqrstuvwxyz'') c of
        Some l \<Rightarrow> l
      | None \<Rightarrow> c)"

fun toLowerCase :: "jsval \<Rightarrow> error + jsval" where
  "toLowerCase (Str s) = Inr (Str (map lower_char s))"
| "toLowerCase Undefined = Inl (TypeError ''Cannot read properties of undefined'')"
| "toLowerCase Null = Inl (TypeError ''Cannot read properties of null'')"
| "toLowerCase _ = Inl (TypeError ''toLowerCase is not a function'')"

text \<open>
  \<open>Array.from(this.users.values()).find((u) => u.email === email.toLowerCase())\<close>:
  the callback, and with it the lower-casing, runs only when there is a user to test.
\<close>

definition findUserByEmailSync :: "db \<Rightarrow> jsval \<Rightarrow> error + obj option" where
  "findUserByEmailSync users email =
     (if users = [] then Inr None
      else (case toLowerCase email of
              Inl e \<Rightarrow> Inl e
            | Inr lowered \<Rightarrow>
                Inr (find (\<lambda>u. strict_eq (get_prop u ''email'') lowered) (map snd users))))"

definition findUserById :: "db \<Rightarrow> jsval \<Rightarrow> obj option" where
  "findUserById users ident = users_get users ident"

definition findUserByEmail :: "db \<Rightarrow> jsval \<Rightarrow> error + obj option" where
  "findUserByEmail users email = findUserByEmailSync users email"

definition createUser :: "db \<Rightarrow> string \<Rightarrow> nat \<Rightarrow> obj \<Rightarrow> (error + obj) \<times> db" where
  "createUser users uuid now userData =
     (case toLowerCase (get_prop userData ''email'') of
        Inl e \<Rightarrow> (Inl e, users)
      | Inr email \<Rightarrow>
          (let user =
             [(''id'', Str uuid),
              (''email'', email),
              (''password'', get_prop userData ''password''),
              (''name'', js_or (get_prop userData ''name'') Null),
              (''phone'', js_or (get_prop userData ''phone'') Null),
              (''role'', js_or (get_prop userData ''role'') (Str ''user'')),
              (''isEmailVerified'', js_or (get_prop userData ''isEmailVerified'') (Bool False)),
              (''isActive'',
                 (if get_prop userData ''isActive'' \<noteq> Undefined
                  then get_prop userData ''isActive'' else Bool True)),
              (''avatar'', js_or (get_prop userData ''avatar'') Null),
              (''bio'', js_or (get_prop userData ''bio'') Null),
              (''lastLogin'', Null),
              (''refreshTokens'', Arr []),
              (''createdAt'', Date now),
              (''updatedAt'', Date now)]
           in (case findUserByEmailSync users email of
                 Inl e \<Rightarrow> (Inl e, users)
               | Inr (Some _) \<Rightarrow> (Inl (Error ''Email already exists''), users)
               | Inr None \<Rightarrow> (Inr user, AList.update uuid user users))))"

definition updateUser :: "db \<Rightarrow> nat \<Rightarrow> jsval \<Rightarrow> obj \<Rightarrow> (error + obj) \<times> db" where
  "updateUser users now ident updates =
     (case ident of
        Str k \<Rightarrow>
          (case map_of users k of
             None \<Rightarrow> (Inl (Error ''User not found''), users)
           | Some user \<Rightarrow>
               (let updatedUser =
                  put_prop ''updatedAt'' (Date now)
                    (put_prop ''id'' (get_prop user ''id'') (spread user updates))
                in (Inr updatedUser, AList.update k updatedUser users)))
      | _ \<Rightarrow> (Inl (Error ''User not found''), users))"

text \<open>
  The three token operations mutate the stored object in place. A \<open>refreshTokens\<close>
  property that is not an array has no \<open>push\<close> or \<open>filter\<close>: the call throws.
\<close>

definition addRefreshToken :: "db \<Rightarrow> nat \<Rightarrow> jsval \<Rightarrow> jsval \<Rightarrow> error + db" where
  "addRefreshToken users now userId token =
     (case userId of
        Str k \<Rightarrow>
          (case map_of users k of
             None \<Rightarrow> Inr users
           | Some user \<Rightarrow>
               (case get_prop user ''refreshTokens'' of
                  Arr ts \<Rightarrow>
                    Inr (AList.update k
                           (put_prop ''updatedAt'' (Date now)
                              (put_prop ''refreshTokens'' (Arr (ts @ [token])) user)) users)
                | _ \<Rightarrow> Inl (TypeError ''user.refreshTokens.push is not a function'')))
      | _ \<Rightarrow> Inr users)"

definition removeRefreshToken :: "db \<Rightarrow> nat \<Rightarrow> jsval \<Rightarrow> jsval \<Rightarrow> error + db" where
  "removeRefreshToken users now userId token =
     (case userId of
        Str k \<Rightarrow>
          (case map_of users k of
             None \<Rightarrow> Inr users
           | Some user \<Rightarrow>
               (case get_prop user ''refreshTokens'' of
                  Arr ts \<Rightarrow>
                    Inr (AList.update k
                           (put_prop ''updatedAt'' (Date now)
                              (put_prop ''refreshTokens''
                                 (Arr (filter (\<lambda>t. \<not> strict_eq t token) ts)) user)) users)
                | _ \<Rightarrow> Inl (TypeError ''user.refreshTokens.filter is not a function'')))
      | _ \<Rightarrow> Inr users)"

definition removeAllRefreshTokens :: "db \<Rightarrow> nat \<Rightarrow> jsval \<Rightarrow> db" where
  "removeAllRefreshTokens users now userId =
     (case userId of
        Str k \<Rightarrow>
          (case map_of users k of
             None \<Rightarrow> users
           | Some user \<Rightarrow>
               AList.update k
                 (put_prop ''updatedAt'' (Date now)
                    (put_prop ''refreshTokens'' (Arr []) user)) users)
      | _ \<Rightarrow> users)"

definition updateLastLogin :: "db \<Rightarrow> nat \<Rightarrow> jsval \<Rightarrow> db" where
  "updateLastLogin users now userId =
     (case userId of
        Str k \<Rightarrow>
          (case map_of users k of
             None \<Rightarrow> users
           | Some user \<Rightarrow>
               AList.update k
                 (put_prop ''updatedAt'' (Date now)
                    (put_prop ''lastLogin'' (Date now) user)) users)
      | _ \<Rightarrow> users)"

section \<open>services/authService.js\<close>

text \<open>
  Every operation takes the configuration, the store and the clock, and returns what the
  \<open>async\<close> method resolves to (\<open>Inr\<close>) or rejects with (\<open>Inl\<close>), together with the
  store as the call leaves it: a method that throws after a store call has already
  changed the store. The clock is read once per call: every \<open>new Date()\<close> and every
  \<open>jwt.sign\<close> of one call sees the same reading \<open>now\<close>.
\<close>

datatype auth_result =
  AuthResult (res_user: obj) (res_accessToken: jsval) (res_refreshToken: jsval)

text \<open>
  \<open>findUserById\<close>, \<open>findUserByEmail\<close> and \<open>createUser\<close> hand out a shallow copy
  \<open>{...user}\<close>: its \<open>refreshTokens\<close> is the very array of the stored object, so a later
  \<open>push\<close> by \<open>addRefreshToken\<close> shows in the copy. \<open>aliased\<close> is the copy as a hook
  sees it after such a push.
\<close>

definition aliased :: "db \<Rightarrow> obj \<Rightarrow> obj" where
  "aliased users user =
     (case users_get users (get_prop user ''id'') of
        Some stored \<Rightarrow> put_prop ''refreshTokens'' (get_prop stored ''refreshTokens'') user
      | None \<Rightarrow> user)"

text \<open>
  \<open>user.refreshTokens.includes(x)\<close> on an array; a value without the method throws.
  (The schema of the user types \<open>refreshTokens\<close> as an array of strings; a record whose
  \<open>refreshTokens\<close> is itself a string is not modelled.)
\<close>

fun array_includes :: "jsval \<Rightarrow> jsval \<Rightarrow> error + bool" where
  "array_includes (Arr ts) x = Inr (list_ex (\<lambda>t. strict_eq t x) ts)"
| "array_includes _ x = Inl (TypeError ''user.refreshTokens.includes is not a function'')"

definition register :: "env \<Rightarrow> db \<Rightarrow> string \<Rightarrow> nat \<Rightarrow> obj \<Rightarrow> (error + auth_result) \<times> db" where
  "register cfg users uuid now userData =
     (case findUserByEmail users (get_prop userData ''email'') of
        Inl e \<Rightarrow> (Inl e, users)
      | Inr (Some existingUser) \<Rightarrow> (Inl (ConflictError ''Email already registered''), users)
      | Inr None \<Rightarrow>
     (case hashPassword cfg (get_prop userData ''password'') of
        Inl e \<Rightarrow> (Inl e, users)
      | Inr hashedPassword \<Rightarrow>
     (case toLowerCase (get_prop userData ''email'') of
        Inl e \<Rightarrow> (Inl e, users)
      | Inr email \<Rightarrow>
     (case createUser users uuid now
             [(''email'', email),
              (''password'', hashedPassword),
              (''name'', get_prop userData ''name''),
              (''phone'', get_prop userData ''phone''),
              (''role'', js_or (get_prop userData ''role'') (Str ''user'')),
              (''isEmailVerified'', Bool (\<not> emailVerification cfg))] of
        (Inl e, users1) \<Rightarrow> (Inl e, users1)
      | (Inr user, users1) \<Rightarrow>
     (let toks = generateTokens cfg now user in
      case addRefreshToken users1 now (get_prop user ''id'') (refreshToken_of toks) of
        Inl e \<Rightarrow> (Inl e, users1)
      | Inr users2 \<Rightarrow>
     (case (if emailVerification cfg
            then sendVerificationEmail cfg (get_prop user ''email'')
            else (case sendWelcomeEmail cfg (get_prop user ''email'') of
                    Inl err \<Rightarrow> Inr () | Inr u \<Rightarrow> Inr u)) of
        Inl e \<Rightarrow> (Inl e, users2)
      | Inr _ \<Rightarrow>
     (case run_hook (onRegister cfg) (aliased users2 user) of
        Some e \<Rightarrow> (Inl e, users2)
      | None \<Rightarrow>
          (Inr (AuthResult (sanitizeUser user) (accessToken toks) (refreshToken_of toks)),
           users2))))))))"

definition login :: "env \<Rightarrow> db \<Rightarrow> nat \<Rightarrow> jsval \<Rightarrow> jsval \<Rightarrow> (error + auth_result) \<times> db" where
  "login cfg users now email password =
     (case findUserByEmail users email of
        Inl e \<Rightarrow> (Inl e, users)
      | Inr None \<Rightarrow> (Inl (AuthenticationError ''Invalid email or password''), users)
      | Inr (Some user) \<Rightarrow>
     (if \<not> truthy (get_prop user ''isActive'')
      then (Inl (AuthenticationError
                   ''Your account has been deactivated. Please contact support.''), users)
      else
     (case comparePassword cfg password (get_prop user ''password'') of
        Inl e \<Rightarrow> (Inl e, users)
      | Inr isPasswordValid \<Rightarrow>
     (if \<not> isPasswordValid
      then (Inl (AuthenticationError ''Invalid email or password''), users)
      else if emailVerification cfg \<and> \<not> truthy (get_prop user ''isEmailVerified'')
      then (Inl (AuthenticationError
                   ''Please verify your email address before logging in''), users)
      else
     (let toks = generateTokens cfg now user in
      case addRefreshToken users now (get_prop user ''id'') (refreshToken_of toks) of
        Inl e \<Rightarrow> (Inl e, users)
      | Inr users1 \<Rightarrow>
     (let users2 = updateLastLogin users1 now (get_prop user ''id'') in
      case run_hook (onLogin cfg) (aliased users2 user) of
        Some e \<Rightarrow> (Inl e, users2)
      | None \<Rightarrow>
          (Inr (AuthResult (sanitizeUser user) (accessToken toks) (refreshToken_of toks)),
           users2)))))))"

definition logout :: "env \<Rightarrow> db \<Rightarrow> nat \<Rightarrow> jsval \<Rightarrow> jsval \<Rightarrow> (error + unit) \<times> db" where
  "logout cfg users now userId token =
     (case removeRefreshToken users now userId token of
        Inl e \<Rightarrow> (Inl e, users)
      | Inr users1 \<Rightarrow>
          (case run_hook (onLogout cfg) (findUserById users1 userId) of
             Some e \<Rightarrow> (Inl e, users1)
           | None \<Rightarrow> (Inr (), users1)))"

definition logoutAll :: "env \<Rightarrow> db \<Rightarrow> nat \<Rightarrow> jsval \<Rightarrow> (error + unit) \<times> db" where
  "logoutAll cfg users now userId =
     (let users1 = removeAllRefreshTokens users now userId in
      case run_hook (onLogout cfg) (findUserById users1 userId) of
        Some e \<Rightarrow> (Inl e, users1)
      | None \<Rightarrow> (Inr (), users1))"

definition refreshToken :: "env \<Rightarrow> db \<Rightarrow> nat \<Rightarrow> jsval \<Rightarrow> (error + auth_result) \<times> db" where
  "refreshToken cfg users now token =
     (case verifyRefreshToken cfg now token of
        Inl e \<Rightarrow> (Inl e, users)
      | Inr decoded \<Rightarrow>
     (case findUserById users (get_prop decoded ''id'') of
        None \<Rightarrow> (Inl (AuthenticationError ''User not found''), users)
      | Some user \<Rightarrow>
     (if \<not> truthy (get_prop user ''refreshTokens'')
      then (Inl (AuthenticationError ''Invalid refresh token''), users)
      else
     (case array_includes (get_prop user ''refreshTokens'') token of
        Inl e \<Rightarrow> (Inl e, users)
      | Inr present \<Rightarrow>
     (if \<not> present then (Inl (AuthenticationError ''Invalid refresh token''), users)
      else
     (case removeRefreshToken users now (get_prop user ''id'') token of
        Inl e \<Rightarrow> (Inl e, users)
      | Inr users1 \<Rightarrow>
     (let toks = generateTokens cfg now user in
      case addRefreshToken users1 now (get_prop user ''id'') (refreshToken_of toks) of
        Inl e \<Rightarrow> (Inl e, users1)
      | Inr users2 \<Rightarrow>
          (Inr (AuthResult (sanitizeUser user) (accessToken toks) (refreshToken_of toks)),
           users2))))))))"

definition verifyEmail :: "env \<Rightarrow> db \<Rightarrow> nat \<Rightarrow> jsval \<Rightarrow> (error + obj) \<times> db" where
  "verifyEmail cfg users now token =
     (case verifyEmailVerificationToken cfg now token of
        Inl e \<Rightarrow> (Inl e, users)
      | Inr decoded \<Rightarrow>
     (case findUserById users (get_prop decoded ''id'') of
        None \<Rightarrow> (Inl (NotFoundError ''User not found''), users)
      | Some user \<Rightarrow>
     (if truthy (get_prop user ''isEmailVerified'')
      then (Inl (ValidationError ''Email already verified''), users)
      else
     (case updateUser users now (get_prop user ''id'') [(''isEmailVerified'', Bool True)] of
        (Inl e, users1) \<Rightarrow> (Inl e, users1)
      | (Inr updatedUser, users1) \<Rightarrow>
     (case (case sendWelcomeEmail cfg (get_prop user ''email'') of
              Inl err \<Rightarrow> Inr () | Inr u \<Rightarrow> Inr u) of
        Inl e \<Rightarrow> (Inl e, users1)
      | Inr _ \<Rightarrow>
     (case run_hook (onEmailVerified cfg) updatedUser of
        Some e \<Rightarrow> (Inl e, users1)
      | None \<Rightarrow> (Inr (sanitizeUser updatedUser), users1)))))))"

text \<open>
  \<open>forgotPassword\<close>: the body of the \<open>try\<close>, and the method, whose \<open>catch\<close> logs the
  error and returns.
\<close>

definition forgotPassword_try :: "env \<Rightarrow> db \<Rightarrow> nat \<Rightarrow> jsval \<Rightarrow> error + unit" where
  "forgotPassword_try cfg users now email =
     (case findUserByEmail users email of
        Inl e \<Rightarrow> Inl e
      | Inr None \<Rightarrow> Inr ()
      | Inr (Some user) \<Rightarrow>
          (let resetToken = generatePasswordResetToken cfg now (get_prop user ''id'')
           in sendPasswordResetEmail cfg (get_prop user ''email'')))"

definition forgotPassword :: "env \<Rightarrow> db \<Rightarrow> nat \<Rightarrow> jsval \<Rightarrow> (error + unit) \<times> db" where
  "forgotPassword cfg users now email =
     (case forgotPassword_try cfg users now email of
        Inl error \<Rightarrow> (Inr (), users)
      | Inr u \<Rightarrow> (Inr u, users))"

definition resetPassword :: "env \<Rightarrow> db \<Rightarrow> nat \<Rightarrow> jsval \<Rightarrow> jsval \<Rightarrow> (error + unit) \<times> db" where
  "resetPassword cfg users now token newPassword =
     (case verifyPasswordResetToken cfg now token of
        Inl e \<Rightarrow> (Inl e, users)
      | Inr decoded \<Rightarrow>
     (case findUserById users (get_prop decoded ''id'') of
        None \<Rightarrow> (Inl (NotFoundError ''User not found''), users)
      | Some user \<Rightarrow>
     (case hashPassword cfg newPassword of
        Inl e \<Rightarrow> (Inl e, users)
      | Inr hashedPassword \<Rightarrow>
     (case updateUser users now (get_prop user ''id'') [(''password'', hashedPassword)] of
        (Inl e, users1) \<Rightarrow> (Inl e, users1)
      | (Inr updatedUser, users1) \<Rightarrow>
     (let users2 = removeAllRefreshTokens users1 now (get_prop user ''id'') in
      case (case sendPasswordChangedEmail cfg (get_prop user ''email'') of
              Inl err \<Rightarrow> Inr () | Inr u \<Rightarrow> Inr u) of
        Inl e \<Rightarrow> (Inl e, users2)
      | Inr _ \<Rightarrow>
     (case run_hook (onPasswordReset cfg) user of
        Some e \<Rightarrow> (Inl e, users2)
      | None \<Rightarrow> (Inr (), users2)))))))"

definition changePassword ::
  "env \<Rightarrow> db \<Rightarrow> nat \<Rightarrow> jsval \<Rightarrow> jsval \<Rightarrow> jsval \<Rightarrow> (error + unit) \<times> db" where
  "changePassword cfg users now userId currentPassword newPassword =
     (case findUserById users userId of
        None \<Rightarrow> (Inl (NotFoundError ''User not found''), users)
      | Some user \<Rightarrow>
     (case comparePassword cfg currentPassword (get_prop user ''password'') of
        Inl e \<Rightarrow> (Inl e, users)
      | Inr isPasswordValid \<Rightarrow>
     (if \<not> isPasswordValid
      then (Inl (AuthenticationError ''Current password is incorrect''), users)
      else
     (case hashPassword cfg newPassword of
        Inl e \<Rightarrow> (Inl e, users)
      | Inr hashedPassword \<Rightarrow>
     (case updateUser users now (get_prop user ''id'') [(''password'', hashedPassword)] of
        (Inl e, users1) \<Rightarrow> (Inl e, users1)
      | (Inr updatedUser, users1) \<Rightarrow>
     (let users2 = removeAllRefreshTokens users1 now (get_prop user ''id'') in
      case (case sendPasswordChangedEmail cfg (get_prop user ''email'') of
              Inl err \<Rightarrow> Inr () | Inr u \<Rightarrow> Inr u) of
        Inl e \<Rightarrow> (Inl e, users2)
      | Inr _ \<Rightarrow> (Inr (), users2)))))))"

definition getProfile :: "db \<Rightarrow> jsval \<Rightarrow> error + obj" where
  "getProfile users userId =
     (case findUserById users userId of
        None \<Rightarrow> Inl (NotFoundError ''User not found'')
      | Some user \<Rightarrow> Inr (sanitizeUser user))"

definition allowedFields :: "string list" where
  "allowedFields = [''name'', ''phone'', ''bio'', ''avatar'']"

text \<open>The \<open>forEach\<close> over \<open>allowedFields\<close> that builds \<open>filteredUpdates\<close>.\<close>

definition filteredUpdates :: "obj \<Rightarrow> obj" where
  "filteredUpdates updates =
     foldl (\<lambda>acc field.
              if get_prop updates field \<noteq> Undefined
              then put_prop field (get_prop updates field) acc else acc)
           [] allowedFields"

definition updateProfile :: "db \<Rightarrow> nat \<Rightarrow> jsval \<Rightarrow> obj \<Rightarrow> (error + obj) \<times> db" where
  "updateProfile users now userId updates =
     (case updateUser users now userId (filteredUpdates updates) of
        (Inl e, users1) \<Rightarrow> (Inl e, users1)
      | (Inr updatedUser, users1) \<Rightarrow> (Inr (sanitizeUser updatedUser), users1))"

section \<open>utils/validation.js\<close>

text \<open>
  \<open>validate(schema, data)\<close> runs Joi with \<open>stripUnknown: true\<close>: the value it hands on
  keeps only the keys the schema declares. \<open>registerSchema\<close> declares four keys.
\<close>

definition registerSchema_keys :: "string list" where
  "registerSchema_keys = [''email'', ''password'', ''name'', ''phone'']"

definition stripUnknown :: "string list \<Rightarrow> obj \<Rightarrow> obj" where
  "stripUnknown keys data = AList.restrict (set keys) data"

section \<open>Observations on the store\<close>

text \<open>
  The representation invariant of the adapter's map: every user object is stored under
  its own \<open>id\<close>, and its \<open>refreshTokens\<close> is an array. \<open>createUser\<close> establishes it and
  every operation of the service keeps it.
\<close>

definition wf_user :: "string \<Rightarrow> obj \<Rightarrow> bool" where
  "wf_user k u =
     (get_prop u ''id'' = Str k \<and>
      (case get_prop u ''refreshTokens'' of Arr ts \<Rightarrow> True | _ \<Rightarrow> False))"

definition wf_db :: "db \<Rightarrow> bool" where
  "wf_db users = list_all (\<lambda>(k, u). wf_user k u) users"

text \<open>The persisted refresh tokens of the user with the given id (none if there is no such user).\<close>

definition tokens_of :: "db \<Rightarrow> jsval \<Rightarrow> jsval list" where
  "tokens_of users ident =
     (case users_get users ident of
        None \<Rightarrow> []
      | Some u \<Rightarrow> (case get_prop u ''refreshTokens'' of Arr ts \<Rightarrow> ts | _ \<Rightarrow> []))"

text \<open>A property of the stored user with the given id (\<open>undefined\<close> if there is no such user).\<close>

definition stored_prop :: "db \<Rightarrow> jsval \<Rightarrow> string \<Rightarrow> jsval" where
  "stored_prop users ident f =
     (case users_get users ident of None \<Rightarrow> Undefined | Some u \<Rightarrow> get_prop u f)"

text \<open>The \<open>id\<close> claim a token carries.\<close>

fun token_id :: "jsval \<Rightarrow> jsval" where
  "token_id (Jwt claims key) = get_prop claims ''id''"
| "token_id _ = Undefined"

text \<open>The \<open>iat\<close> claim a token carries: the second it was issued in.\<close>

fun token_iat :: "jsval \<Rightarrow> jsval" where
  "token_iat (Jwt claims key) = get_prop claims ''iat''"
| "token_iat _ = Undefined"

text \<open>A user object has neither a \<open>password\<close> nor a \<open>refreshTokens\<close> property.\<close>

definition stripped :: "obj \<Rightarrow> bool" where
  "stripped u = (''password'' \<notin> fst ` set u \<and> ''refreshTokens'' \<notin> fst ` set u)"

section \<open>An example configuration and store\<close>

text \<open>
  The default configuration (email verification off, no hooks) with stand-ins for the
  collaborators: a bcrypt whose hash of \<open>p\<close> is \<open>$2b$\<close> followed by \<open>p\<close>, and a mail
  transport that delivers. \<open>cfg_mail_down\<close> is the same with a transport that fails.
  The store holds Ann (active) and Bob (deactivated), each with one refresh token issued
  at second 5, and Dan, whose email is not verified yet. \<open>cara\<close> is the data of a
  registration.
\<close>

definition cfg0 :: env where
  "cfg0 =
     \<lparr> jwt_secret = ''access-secret'', jwt_expiresIn = 900,
       jwt_refreshSecret = ''refresh-secret'', jwt_refreshExpiresIn = 604800,
       emailVerificationExpiresIn = 86400000, passwordResetExpiresIn = 3600000,
       emailVerification = False,
       onRegister = None, onLogin = None, onLogout = None, onPasswordReset = None,
       onEmailVerified = None,
       bcrypt_hash =
         (\<lambda>p. case p of Str s \<Rightarrow> Inr (Str (''$2b$'' @ s)) | _ \<Rightarrow> Inl ''Illegal arguments''),
       bcrypt_compare =
         (\<lambda>p h. case p of Str s \<Rightarrow> Inr (h = Str (''$2b$'' @ s))
                 | _ \<Rightarrow> Inl ''Illegal arguments''),
       sendMail = (\<lambda>to subject. None) \<rparr>"

definition cfg_mail_down :: env where
  "cfg_mail_down = cfg0 \<lparr> sendMail := (\<lambda>to subject. Some ''connect ECONNREFUSED'') \<rparr>"

definition annToken :: jsval where
  "annToken =
     Jwt [(''id'', Str ''u1''), (''type'', Str ''refresh''), (''iat'', Num 5),
          (''exp'', Num 604805)] ''refresh-secret''"

definition ann :: obj where
  "ann =
     [(''id'', Str ''u1''), (''email'', Str ''ann@x.com''),
      (''password'', Str ''$2b$Str0ng!Pass''), (''name'', Str ''Ann''), (''phone'', Null),
      (''role'', Str ''user''), (''isEmailVerified'', Bool True), (''isActive'', Bool True),
      (''avatar'', Null), (''bio'', Null), (''lastLogin'', Null),
      (''refreshTokens'', Arr [annToken]), (''createdAt'', Date 5000),
      (''updatedAt'', Date 5000)]"

definition bobToken :: jsval where
  "bobToken =
     Jwt [(''id'', Str ''u2''), (''type'', Str ''refresh''), (''iat'', Num 5),
          (''exp'', Num 604805)] ''refresh-secret''"

definition bob :: obj where
  "bob =
     [(''id'', Str ''u2''), (''email'', Str ''bob@x.com''),
      (''password'', Str ''$2b$B0b!Secret''), (''name'', Str ''Bob''), (''phone'', Null),
      (''role'', Str ''user''), (''isEmailVerified'', Bool True), (''isActive'', Bool False),
      (''avatar'', Null), (''bio'', Null), (''lastLogin'', Null),
      (''refreshTokens'', Arr [bobToken]), (''createdAt'', Date 5000),
      (''updatedAt'', Date 5000)]"

definition dan :: obj where
  "dan =
     [(''id'', Str ''u3''), (''email'', Str ''dan@x.com''),
      (''password'', Str ''$2b$D4n!Secret''), (''name'', Null), (''phone'', Null),
      (''role'', Str ''user''), (''isEmailVerified'', Bool False), (''isActive'', Bool True),
      (''avatar'', Null), (''bio'', Null), (''lastLogin'', Null),
      (''refreshTokens'', Arr []), (''createdAt'', Date 5000),
      (''updatedAt'', Date 5000)]"

definition db0 :: db where
  "db0 = [(''u1'', ann), (''u2'', bob), (''u3'', dan)]"

definition cara :: obj where
  "cara =
     [(''email'', Str ''Cara@X.com''), (''password'', Str ''C4ra!Passw0rd''),
      (''name'', Str ''Cara'')]"

section \<open>Basic facts\<close>

lemmas service_defs =
  register_def login_def logout_def logoutAll_def refreshToken_def verifyEmail_def
  forgotPassword_def forgotPassword_try_def resetPassword_def changePassword_def
  getProfile_def updateProfile_def filteredUpdates_def allowedFields_def aliased_def
  run_hook_def

lemmas adapter_defs =
  findUserByEmail_def findUserByEmailSync_def findUserById_def createUser_def updateUser_def
  addRefreshToken_def removeRefreshToken_def removeAllRefreshTokens_def updateLastLogin_def
  lower_char_def sanitizeUser_def AList.delete_eq

lemmas util_defs =
  hashPassword_def comparePassword_def sendEmail_def sendWelcomeEmail_def
  sendVerificationEmail_def sendPasswordResetEmail_def sendPasswordChangedEmail_def
  generateTokens_def generateAccessToken_def generateRefreshToken_def
  generateEmailVerificationToken_def generatePasswordResetToken_def jwt_sign_def
  verifyAccessToken_def verifyRefreshToken_def verifyEmailVerificationToken_def
  verifyPasswordResetToken_def get_prop_def put_prop_def spread_def js_or_def Let_def

lemmas example_defs =
  cfg0_def cfg_mail_down_def ann_def annToken_def bob_def bobToken_def dan_def db0_def
  cara_def

lemma get_prop_Nil: "get_prop [] k = Undefined"
  by (simp add: get_prop_def)

lemma get_prop_Cons: "get_prop ((k, v) # ob) k' = (if k' = k then v else get_prop ob k')"
  by (simp add: get_prop_def)

lemma get_prop_put_prop:
  "get_prop (put_prop k v ob) k' = (if k' = k then v else get_prop ob k')"
  by (simp add: get_prop_def put_prop_def update_conv')

lemma get_prop_spread:
  "get_prop (spread a b) k = (case map_of b k of Some v \<Rightarrow> v | None \<Rightarrow> get_prop a k)"
  by (simp add: get_prop_def spread_def merge_conv' map_add_def split: option.splits)

lemma put_prop_same:
  "get_prop ob k = Arr ts \<Longrightarrow> put_prop k (Arr ts) ob = ob"
  by (auto simp: get_prop_def put_prop_def split: option.splits intro: update_triv)

lemma get_prop_sanitizeUser:
  "k \<noteq> ''password'' \<Longrightarrow> k \<noteq> ''refreshTokens'' \<Longrightarrow> get_prop (sanitizeUser u) k = get_prop u k"
  by (simp add: get_prop_def sanitizeUser_def delete_conv')

lemma stripped_sanitizeUser: "stripped (sanitizeUser user)"
  by (auto simp: stripped_def sanitizeUser_def AList.delete_eq)

lemma strict_eq_Jwt: "strict_eq t (Jwt c k) = (t = Jwt c k)"
  by (cases t) auto

lemma list_ex_strict_eq_Jwt:
  "list_ex (\<lambda>t. strict_eq t (Jwt c k)) ts = (Jwt c k \<in> set ts)"
  by (auto simp: list_ex_iff strict_eq_Jwt)

lemma filter_strict_eq_Jwt:
  "filter (\<lambda>t. \<not> strict_eq t (Jwt c k)) ts = filter (\<lambda>t. t \<noteq> Jwt c k) ts"
  by (simp add: strict_eq_Jwt)

lemma filter_absent:
  "\<not> list_ex (\<lambda>t. strict_eq t x) ts \<Longrightarrow> filter (\<lambda>t. \<not> strict_eq t x) ts = ts"
  by (induction ts) auto

lemma users_get_update:
  "users_get (AList.update k v users) ident =
     (if ident = Str k then Some v else users_get users ident)"
  by (cases ident) (simp_all add: update_conv')

lemma users_get_Str: "users_get users ident = Some u \<Longrightarrow> \<exists>k. ident = Str k \<and> map_of users k = Some u"
  by (cases ident) simp_all

lemma updateUser_found:
  "users_get users userId = Some u \<Longrightarrow>
   \<exists>k. userId = Str k \<and>
     updateUser users now userId updates =
       (Inr (put_prop ''updatedAt'' (Date now)
               (put_prop ''id'' (get_prop u ''id'') (spread u updates))),
        AList.update k
          (put_prop ''updatedAt'' (Date now)
             (put_prop ''id'' (get_prop u ''id'') (spread u updates))) users)"
  by (cases userId) (simp_all add: updateUser_def Let_def)

lemma updateUser_missing:
  "users_get users userId = None \<Longrightarrow>
   updateUser users now userId updates = (Inl (Error ''User not found''), users)"
  by (cases userId) (simp_all add: updateUser_def)

lemma map_of_filteredUpdates:
  "map_of (filteredUpdates updates) f =
     (if f \<in> set allowedFields \<and> get_prop updates f \<noteq> Undefined
      then Some (get_prop updates f) else None)"
  by (simp add: filteredUpdates_def allowedFields_def put_prop_def update_conv')

lemma wf_db_lookup:
  "wf_db users \<Longrightarrow> map_of users k = Some u \<Longrightarrow> wf_user k u"
  by (auto simp: wf_db_def list_all_iff dest: map_of_SomeD)

lemma wf_user_cases:
  "wf_user k u \<Longrightarrow> get_prop u ''id'' = Str k \<and> (\<exists>ts. get_prop u ''refreshTokens'' = Arr ts)"
  by (auto simp: wf_user_def split: jsval.splits)

section \<open>The store invariant\<close>

text \<open>
  The empty store satisfies the invariant, and every operation of the service keeps it,
  whether the operation returns or throws.
\<close>

lemma wf_db_update:
  "wf_db users \<Longrightarrow> wf_user k u \<Longrightarrow> wf_db (AList.update k u users)"
  by (induction users) (auto simp: wf_db_def)

lemma wf_user_put_prop:
  "wf_user k u \<Longrightarrow> f \<noteq> ''id'' \<Longrightarrow> f \<noteq> ''refreshTokens'' \<Longrightarrow> wf_user k (put_prop f v u)"
  by (simp add: wf_user_def get_prop_put_prop)

lemma wf_user_put_tokens:
  "wf_user k u \<Longrightarrow> wf_user k (put_prop ''refreshTokens'' (Arr ts) u)"
  by (simp add: wf_user_def get_prop_put_prop)

lemma wf_db_addRefreshToken:
  "wf_db users \<Longrightarrow> addRefreshToken users now userId token = Inr users' \<Longrightarrow> wf_db users'"
  by (auto simp: addRefreshToken_def split: jsval.splits option.splits
           intro!: wf_db_update wf_user_put_prop wf_user_put_tokens dest: wf_db_lookup)

lemma wf_db_removeRefreshToken:
  "wf_db users \<Longrightarrow> removeRefreshToken users now userId token = Inr users' \<Longrightarrow> wf_db users'"
  by (auto simp: removeRefreshToken_def split: jsval.splits option.splits
           intro!: wf_db_update wf_user_put_prop wf_user_put_tokens dest: wf_db_lookup)

lemma wf_db_removeAllRefreshTokens:
  "wf_db users \<Longrightarrow> wf_db (removeAllRefreshTokens users now userId)"
  by (auto simp: removeAllRefreshTokens_def split: jsval.splits option.splits
           intro!: wf_db_update wf_user_put_prop wf_user_put_tokens dest: wf_db_lookup)

lemma wf_db_updateLastLogin:
  "wf_db users \<Longrightarrow> wf_db (updateLastLogin users now userId)"
  by (auto simp: updateLastLogin_def split: jsval.splits option.splits
           intro!: wf_db_update wf_user_put_prop dest: wf_db_lookup)

lemma wf_db_updateUser:
  assumes "wf_db users" and "map_of updates ''refreshTokens'' = None"
  shows "wf_db (snd (updateUser users now ident updates))"
proof (cases "users_get users ident")
  case None
  then show ?thesis using assms(1) by (simp add: updateUser_missing)
next
  case (Some u)
  from users_get_Str[OF Some] obtain k where k: "ident = Str k" and m: "map_of users k = Some u"
    by blast
  have "wf_user k u" using wf_db_lookup[OF assms(1) m] .
  then have "wf_user k (put_prop ''updatedAt'' (Date now)
               (put_prop ''id'' (get_prop u ''id'') (spread u updates)))"
    using assms(2) by (simp add: wf_user_def get_prop_put_prop get_prop_spread)
  then show ?thesis
    using m k assms(1) by (simp add: updateUser_def Let_def wf_db_update)
qed

lemma wf_db_createUser:
  "wf_db users \<Longrightarrow> wf_db (snd (createUser users uuid now userData))"
  by (auto simp: createUser_def Let_def wf_user_def get_prop_Cons
           split: sum.splits option.splits intro!: wf_db_update)

lemma filteredUpdates_no_tokens: "map_of (filteredUpdates updates) ''refreshTokens'' = None"
  by (simp add: map_of_filteredUpdates allowedFields_def)

lemma wf_db_createUser_eq:
  "createUser users uuid now userData = (res, users1) \<Longrightarrow> wf_db users \<Longrightarrow> wf_db users1"
  using wf_db_createUser[of users uuid now userData] by simp

lemma wf_db_updateUser_eq:
  "updateUser users now ident updates = (res, users1) \<Longrightarrow> wf_db users \<Longrightarrow>
   map_of updates ''refreshTokens'' = None \<Longrightarrow> wf_db users1"
  using wf_db_updateUser[of users updates now ident] by simp

lemma wf_db_preserved:
  assumes wf: "wf_db users"
  shows "wf_db (snd (register cfg users uuid now userData))"
    and "wf_db (snd (login cfg users now email password))"
    and "wf_db (snd (logout cfg users now userId token))"
    and "wf_db (snd (logoutAll cfg users now userId))"
    and "wf_db (snd (refreshToken cfg users now token))"
    and "wf_db (snd (verifyEmail cfg users now token))"
    and "wf_db (snd (forgotPassword cfg users now email))"
    and "wf_db (snd (resetPassword cfg users now token newPassword))"
    and "wf_db (snd (changePassword cfg users now userId currentPassword newPassword))"
    and "wf_db (snd (updateProfile users now userId updates))"
proof -
  show "wf_db (snd (register cfg users uuid now userData))"
    using wf
    by (auto simp: register_def Let_def split: sum.splits option.splits prod.splits
             dest: wf_db_addRefreshToken wf_db_createUser_eq)
  show "wf_db (snd (login cfg users now email password))"
    using wf
    by (auto simp: login_def Let_def split: sum.splits option.splits prod.splits
             intro!: wf_db_updateLastLogin dest: wf_db_addRefreshToken)
  show "wf_db (snd (logout cfg users now userId token))"
    using wf
    by (auto simp: logout_def split: sum.splits option.splits dest: wf_db_removeRefreshToken)
  show "wf_db (snd (logoutAll cfg users now userId))"
    using wf
    by (auto simp: logoutAll_def Let_def split: option.splits intro: wf_db_removeAllRefreshTokens)
  show "wf_db (snd (refreshToken cfg users now token))"
    using wf
    by (auto simp: refreshToken_def Let_def split: sum.splits option.splits
             dest: wf_db_addRefreshToken wf_db_removeRefreshToken)
  show "wf_db (snd (verifyEmail cfg users now token))"
    using wf
    by (auto simp: verifyEmail_def Let_def split: sum.splits option.splits prod.splits
             dest: wf_db_updateUser_eq)
  show "wf_db (snd (forgotPassword cfg users now email))"
    using wf by (simp add: forgotPassword_def split: sum.splits)
  show "wf_db (snd (resetPassword cfg users now token newPassword))"
    using wf
    by (auto simp: resetPassword_def Let_def split: sum.splits option.splits prod.splits
             intro!: wf_db_removeAllRefreshTokens dest: wf_db_updateUser_eq)
  show "wf_db (snd (changePassword cfg users now userId currentPassword newPassword))"
    using wf
    by (auto simp: changePassword_def Let_def split: sum.splits option.splits prod.splits
             intro!: wf_db_removeAllRefreshTokens dest: wf_db_updateUser_eq)
  show "wf_db (snd (updateProfile users now userId updates))"
    using wf filteredUpdates_no_tokens[of updates]
    by (auto simp: updateProfile_def split: sum.splits prod.splits dest: wf_db_updateUser_eq)
qed

lemma wf_db_empty: "wf_db []"
  by (simp add: wf_db_def)

section \<open>register and the caller-supplied role\<close>

lemma createUser_ok:
  assumes "createUser users uuid now data = (Inr user, users1)"
  shows "users1 = AList.update uuid user users"
    and "get_prop user ''id'' = Str uuid"
    and "get_prop user ''role'' = js_or (get_prop data ''role'') (Str ''user'')"
    and "get_prop user ''refreshTokens'' = Arr []"
  using assms
  by (auto simp: createUser_def Let_def get_prop_Cons split: sum.splits option.splits)

lemma js_or_idem: "js_or (js_or a (Str ''user'')) (Str ''user'') = js_or a (Str ''user'')"
  by (simp add: js_or_def)

lemma register_role:
  assumes "register cfg users uuid now userData = (Inr r, users')"
  shows "get_prop (res_user r) ''role'' = js_or (get_prop userData ''role'') (Str ''user'') \<and>
         stored_prop users' (Str uuid) ''role'' = js_or (get_prop userData ''role'') (Str ''user'')"
proof -
  from assms obtain email hashed user users1 users2 where
    cu: "createUser users uuid now
           [(''email'', email), (''password'', hashed), (''name'', get_prop userData ''name''),
            (''phone'', get_prop userData ''phone''),
            (''role'', js_or (get_prop userData ''role'') (Str ''user'')),
            (''isEmailVerified'', Bool (\<not> emailVerification cfg))] = (Inr user, users1)"
    and ar: "addRefreshToken users1 now (get_prop user ''id'')
               (refreshToken_of (generateTokens cfg now user)) = Inr users2"
    and r: "res_user r = sanitizeUser user" and u: "users' = users2"
    by (auto simp: register_def Let_def split: sum.splits option.splits prod.splits if_splits)
  note ok = createUser_ok[OF cu]
  have role: "get_prop user ''role'' = js_or (get_prop userData ''role'') (Str ''user'')"
    using ok(3) by (simp add: get_prop_Cons js_or_idem)
  have "stored_prop users2 (Str uuid) ''role'' = get_prop user ''role''"
    using ar ok(1,2,4)
    by (auto simp: addRefreshToken_def update_conv' stored_prop_def get_prop_put_prop)
  with role r u show ?thesis
    by (simp add: get_prop_sanitizeUser)
qed

lemma stripUnknown_role:
  "get_prop (stripUnknown registerSchema_keys body) ''role'' = Undefined"
  by (simp add: get_prop_def stripUnknown_def registerSchema_keys_def)

text \<open>
  C10 (as amended). A successful \<open>register\<close> creates the user with the role
  \<open>userData.role || 'user'\<close>: the role the user is stored with and returned with
  equals \<open>userData.role\<close> whenever that is truthy (any non-empty string, such as
  \<open>admin\<close>), and is \<open>user\<close> when \<open>userData.role\<close> is absent or falsy (the empty
  string, \<open>null\<close>, \<open>0\<close>, \<open>false\<close>). The service does not restrict the role: only the
  Joi schema of the HTTP layer, which declares no \<open>role\<close> key and strips unknown keys,
  keeps an external caller from choosing it; data that went through the stripping
  registers with the role \<open>user\<close>.
\<close>

theorem register_role_from_userData:
  "register cfg users uuid now userData = (Inr r, users') \<longrightarrow>
     get_prop (res_user r) ''role'' = stored_prop users' (Str uuid) ''role'' \<and>
     (truthy (get_prop userData ''role'') \<longrightarrow>
        get_prop (res_user r) ''role'' = get_prop userData ''role'') \<and>
     (\<not> truthy (get_prop userData ''role'') \<longrightarrow> get_prop (res_user r) ''role'' = Str ''user'') \<and>
     (userData = stripUnknown registerSchema_keys body \<longrightarrow>
        get_prop (res_user r) ''role'' = Str ''user'')"
  using register_role[of cfg users uuid now userData r users'] stripUnknown_role[of body]
  by (auto simp: js_or_def)

theorem register_role_from_userData_witness:
  "\<not> isl (fst (register cfg0 db0 ''u4'' 9000 ((''role'', Str ''admin'') # cara))) \<and>
   truthy (get_prop ((''role'', Str ''admin'') # cara) ''role'') \<and>
   get_prop (res_user (projr (fst (register cfg0 db0 ''u4'' 9000
                                     ((''role'', Str ''admin'') # cara))))) ''role'' =
     Str ''admin'' \<and>
   stored_prop (snd (register cfg0 db0 ''u4'' 9000 ((''role'', Str ''admin'') # cara)))
     (Str ''u4'') ''role'' = Str ''admin'' \<and>
   \<not> isl (fst (register cfg0 db0 ''u4'' 9000
                 (stripUnknown registerSchema_keys ((''role'', Str ''admin'') # cara)))) \<and>
   \<not> truthy (get_prop (stripUnknown registerSchema_keys ((''role'', Str ''admin'') # cara))
                ''role'') \<and>
   get_prop (res_user (projr (fst (register cfg0 db0 ''u4'' 9000
               (stripUnknown registerSchema_keys ((''role'', Str ''admin'') # cara)))))) ''role'' =
     Str ''user''"
proof -
  let ?direct = "register cfg0 db0 ''u4'' 9000 ((''role'', Str ''admin'') # cara)"
  let ?http = "register cfg0 db0 ''u4'' 9000
                 (stripUnknown registerSchema_keys ((''role'', Str ''admin'') # cara))"
  have ok: "\<not> isl (fst ?direct)" "\<not> isl (fst ?http)"
    by (simp_all add: register_def stripUnknown_def registerSchema_keys_def AList.restrict_eq
          aliased_def run_hook_def adapter_defs util_defs example_defs)
  have eqs: "?direct = (Inr (projr (fst ?direct)), snd ?direct)"
            "?http = (Inr (projr (fst ?http)), snd ?http)"
    using ok by (simp_all add: prod_eq_iff)
  have given: "truthy (get_prop ((''role'', Str ''admin'') # cara) ''role'')"
              "get_prop ((''role'', Str ''admin'') # cara) ''role'' = Str ''admin''"
              "\<not> truthy (get_prop (stripUnknown registerSchema_keys
                                      ((''role'', Str ''admin'') # cara)) ''role'')"
    by (simp_all add: get_prop_Cons stripUnknown_role)
  show ?thesis
    using register_role_from_userData
            [of cfg0 db0 "''u4''" 9000 "(''role'', Str ''admin'') # cara"
                "projr (fst ?direct)" "snd ?direct" "[]"]
          register_role_from_userData
            [of cfg0 db0 "''u4''" 9000
                "stripUnknown registerSchema_keys ((''role'', Str ''admin'') # cara)"
                "projr (fst ?http)" "snd ?http" "(''role'', Str ''admin'') # cara"]
          eqs ok given
    by metis
qed

text \<open>
  C10 as stated fails for a role that is provided but falsy: registration data whose
  \<open>role\<close> is the empty string creates a user with the role \<open>user\<close>.
\<close>

theorem register_empty_role_defaults:
  "get_prop ((''role'', Str []) # cara) ''role'' = Str [] \<and>
   \<not> isl (fst (register cfg0 db0 ''u4'' 9000 ((''role'', Str []) # cara))) \<and>
   get_prop (res_user (projr (fst (register cfg0 db0 ''u4'' 9000
                                     ((''role'', Str []) # cara))))) ''role'' = Str ''user'' \<and>
   stored_prop (snd (register cfg0 db0 ''u4'' 9000 ((''role'', Str []) # cara)))
     (Str ''u4'') ''role'' = Str ''user''"
  by (simp add: register_def stored_prop_def aliased_def run_hook_def adapter_defs util_defs
        example_defs)

section \<open>login: which error a failed login throws\<close>

text \<open>
  C2 (as amended). When no user exists for the email, and when the user exists, is
  active, and bcrypt finds that the supplied non-empty password does not match the
  stored hash, \<open>login\<close> throws an \<open>AuthenticationError\<close> whose message is exactly
  \<open>Invalid email or password\<close>, the same in both cases, and leaves the store as it
  was. The \<open>isActive\<close> guard stands before the password check: for a deactivated user
  \<open>login\<close> throws the \<open>AuthenticationError\<close> of the deactivated account whatever the
  password is.
\<close>

theorem login_invalid_credentials:
  "(findUserByEmail users email = Inr None \<longrightarrow>
      login cfg users now email password =
        (Inl (AuthenticationError ''Invalid email or password''), users)) \<and>
   (findUserByEmail users email = Inr (Some user) \<and> truthy (get_prop user ''isActive'') \<and>
      comparePassword cfg password (get_prop user ''password'') = Inr False \<longrightarrow>
      login cfg users now email password =
        (Inl (AuthenticationError ''Invalid email or password''), users)) \<and>
   (findUserByEmail users email = Inr (Some user) \<and> \<not> truthy (get_prop user ''isActive'') \<longrightarrow>
      login cfg users now email password =
        (Inl (AuthenticationError
                ''Your account has been deactivated. Please contact support.''), users))"
  by (simp add: login_def)

theorem login_invalid_credentials_witness:
  "findUserByEmail db0 (Str ''nobody@x.com'') = Inr None \<and>
   login cfg0 db0 7000 (Str ''nobody@x.com'') (Str ''Str0ng!Pass'') =
     (Inl (AuthenticationError ''Invalid email or password''), db0) \<and>
   findUserByEmail db0 (Str ''ann@x.com'') = Inr (Some ann) \<and>
   truthy (get_prop ann ''isActive'') \<and>
   comparePassword cfg0 (Str ''not-her-password'') (get_prop ann ''password'') = Inr False \<and>
   login cfg0 db0 7000 (Str ''ann@x.com'') (Str ''not-her-password'') =
     (Inl (AuthenticationError ''Invalid email or password''), db0) \<and>
   findUserByEmail db0 (Str ''bob@x.com'') = Inr (Some bob) \<and>
   \<not> truthy (get_prop bob ''isActive'') \<and>
   login cfg0 db0 7000 (Str ''bob@x.com'') (Str ''B0b!Secret'') =
     (Inl (AuthenticationError
             ''Your account has been deactivated. Please contact support.''), db0)"
proof -
  have none: "findUserByEmail db0 (Str ''nobody@x.com'') = Inr None"
    by (simp add: adapter_defs get_prop_def example_defs)
  have found_ann: "findUserByEmail db0 (Str ''ann@x.com'') = Inr (Some ann)"
    by (simp add: adapter_defs get_prop_def example_defs)
  have found_bob: "findUserByEmail db0 (Str ''bob@x.com'') = Inr (Some bob)"
    by (simp add: adapter_defs get_prop_def example_defs)
  have active: "truthy (get_prop ann ''isActive'')" "\<not> truthy (get_prop bob ''isActive'')"
    by (simp_all add: get_prop_def ann_def bob_def)
  have mismatch:
    "comparePassword cfg0 (Str ''not-her-password'') (get_prop ann ''password'') = Inr False"
    by (simp add: comparePassword_def get_prop_def ann_def cfg0_def)
  show ?thesis
    using login_invalid_credentials
            [of db0 "Str ''nobody@x.com''" cfg0 7000 "Str ''Str0ng!Pass''" ann]
          login_invalid_credentials
            [of db0 "Str ''ann@x.com''" cfg0 7000 "Str ''not-her-password''" ann]
          login_invalid_credentials
            [of db0 "Str ''bob@x.com''" cfg0 7000 "Str ''B0b!Secret''" bob]
          none found_ann found_bob active mismatch
    by simp
qed

text \<open>
  C2 as stated fails for a deactivated user: with a password that does not match, the
  message is the one of the deactivated account, not \<open>Invalid email or password\<close>.
\<close>

theorem login_deactivated_wrong_password:
  "findUserByEmail db0 (Str ''bob@x.com'') = Inr (Some bob) \<and>
   comparePassword cfg0 (Str ''not-his-password'') (get_prop bob ''password'') = Inr False \<and>
   login cfg0 db0 7000 (Str ''bob@x.com'') (Str ''not-his-password'') =
     (Inl (AuthenticationError
             ''Your account has been deactivated. Please contact support.''), db0)"
  by (simp add: login_def adapter_defs comparePassword_def get_prop_def example_defs)

section \<open>logout with a token that is not in the set\<close>

lemma removeRefreshToken_absent:
  assumes "map_of users k = Some u" and "get_prop u ''refreshTokens'' = Arr ts"
      and "\<not> list_ex (\<lambda>t. strict_eq t T) ts"
  shows "removeRefreshToken users now (Str k) T =
           Inr (AList.update k (put_prop ''updatedAt'' (Date now) u) users)"
  using assms by (simp add: removeRefreshToken_def filter_absent put_prop_same)

text \<open>
  C8 (as amended). For every stored user and every token \<open>T\<close> that is not in that
  user's refresh-token set, when no \<open>onLogout\<close> hook is configured or the hook does not
  throw, \<open>logout(userId, T)\<close> resolves without throwing and leaves the refresh-token
  set and every other property of the user record unchanged, except \<open>updatedAt\<close>, which
  is set to the time of the call; no other user is touched. Repeating the call changes
  nothing but that timestamp again: the two calls leave the store as the later call
  alone would. For an id that is not in the store the call resolves and changes
  nothing at all.
\<close>

theorem logout_absent_token:
  "(users_get users userId = Some u \<and> get_prop u ''refreshTokens'' = Arr ts \<and>
   \<not> list_ex (\<lambda>t. strict_eq t T) ts \<and> (\<forall>x. run_hook (onLogout cfg) x = None) \<longrightarrow>
     fst (logout cfg users now userId T) = Inr () \<and>
     users_get (snd (logout cfg users now userId T)) userId =
       Some (put_prop ''updatedAt'' (Date now) u) \<and>
     tokens_of (snd (logout cfg users now userId T)) userId = ts \<and>
     (\<forall>f. f \<noteq> ''updatedAt'' \<longrightarrow>
        stored_prop (snd (logout cfg users now userId T)) userId f = get_prop u f) \<and>
     (\<forall>other. other \<noteq> userId \<longrightarrow>
        users_get (snd (logout cfg users now userId T)) other = users_get users other) \<and>
     logout cfg (snd (logout cfg users now userId T)) later userId T =
       logout cfg users later userId T) \<and>
   (users_get users userId = None \<and> (\<forall>x. run_hook (onLogout cfg) x = None) \<longrightarrow>
      logout cfg users now userId T = (Inr (), users))"
proof -
  have existing:
    "users_get users userId = Some u \<and> get_prop u ''refreshTokens'' = Arr ts \<and>
   \<not> list_ex (\<lambda>t. strict_eq t T) ts \<and> (\<forall>x. run_hook (onLogout cfg) x = None) \<longrightarrow>
     fst (logout cfg users now userId T) = Inr () \<and>
     users_get (snd (logout cfg users now userId T)) userId =
       Some (put_prop ''updatedAt'' (Date now) u) \<and>
     tokens_of (snd (logout cfg users now userId T)) userId = ts \<and>
     (\<forall>f. f \<noteq> ''updatedAt'' \<longrightarrow>
        stored_prop (snd (logout cfg users now userId T)) userId f = get_prop u f) \<and>
     (\<forall>other. other \<noteq> userId \<longrightarrow>
        users_get (snd (logout cfg users now userId T)) other = users_get users other) \<and>
     logout cfg (snd (logout cfg users now userId T)) later userId T =
       logout cfg users later userId T"
  proof (intro impI, elim conjE)
    assume u: "users_get users userId = Some u"
       and ts: "get_prop u ''refreshTokens'' = Arr ts"
       and absent: "\<not> list_ex (\<lambda>t. strict_eq t T) ts"
       and hook: "\<forall>x. run_hook (onLogout cfg) x = None"
    from users_get_Str[OF u] obtain k where k: "userId = Str k" and m: "map_of users k = Some u"
      by blast
    let ?u' = "put_prop ''updatedAt'' (Date now) u"
    let ?users' = "AList.update k ?u' users"
    have first: "logout cfg users now userId T = (Inr (), ?users')"
      using removeRefreshToken_absent[OF m ts absent] hook k by (simp add: logout_def)
    have m': "map_of ?users' k = Some ?u'"
      by (simp add: update_conv')
    have ts': "get_prop ?u' ''refreshTokens'' = Arr ts"
      using ts by (simp add: get_prop_put_prop)
    have again: "logout cfg ?users' later userId T =
                   (Inr (), AList.update k (put_prop ''updatedAt'' (Date later) ?u') ?users')"
      using removeRefreshToken_absent[OF m' ts' absent] hook k by (simp add: logout_def)
    have single: "logout cfg users later userId T =
                   (Inr (), AList.update k (put_prop ''updatedAt'' (Date later) u) users)"
      using removeRefreshToken_absent[OF m ts absent] hook k by (simp add: logout_def)
    have same: "AList.update k (put_prop ''updatedAt'' (Date later) ?u') ?users' =
                AList.update k (put_prop ''updatedAt'' (Date later) u) users"
      by (simp add: put_prop_def)
    show "fst (logout cfg users now userId T) = Inr () \<and>
       users_get (snd (logout cfg users now userId T)) userId =
         Some (put_prop ''updatedAt'' (Date now) u) \<and>
       tokens_of (snd (logout cfg users now userId T)) userId = ts \<and>
       (\<forall>f. f \<noteq> ''updatedAt'' \<longrightarrow>
          stored_prop (snd (logout cfg users now userId T)) userId f = get_prop u f) \<and>
       (\<forall>other. other \<noteq> userId \<longrightarrow>
          users_get (snd (logout cfg users now userId T)) other = users_get users other) \<and>
       logout cfg (snd (logout cfg users now userId T)) later userId T =
         logout cfg users later userId T"
      unfolding first fst_conv snd_conv again single same
      using ts' k
      by (simp add: users_get_update update_conv' tokens_of_def stored_prop_def get_prop_put_prop)
  qed
  have missing: "logout cfg users now userId T = (Inr (), users)"
    if "users_get users userId = None" "\<forall>x. run_hook (onLogout cfg) x = None"
    using that by (cases userId) (simp_all add: logout_def removeRefreshToken_def)
  show ?thesis
    using existing missing by blast
qed

theorem logout_absent_token_witness:
  "users_get db0 (Str ''u1'') = Some ann \<and>
   get_prop ann ''refreshTokens'' = Arr [annToken] \<and>
   \<not> list_ex (\<lambda>t. strict_eq t bobToken) [annToken] \<and>
   (\<forall>x. run_hook (onLogout cfg0) x = None) \<and>
   fst (logout cfg0 db0 9000 (Str ''u1'') bobToken) = Inr () \<and>
   tokens_of (snd (logout cfg0 db0 9000 (Str ''u1'') bobToken)) (Str ''u1'') = [annToken] \<and>
   stored_prop (snd (logout cfg0 db0 9000 (Str ''u1'') bobToken)) (Str ''u1'') ''role'' =
     get_prop ann ''role'' \<and>
   users_get db0 (Str ''u9'') = None \<and>
   logout cfg0 db0 9000 (Str ''u9'') bobToken = (Inr (), db0)"
proof -
  have none: "users_get db0 (Str ''u9'') = None"
    by (simp add: db0_def)
  have h: "users_get db0 (Str ''u1'') = Some ann"
          "get_prop ann ''refreshTokens'' = Arr [annToken]"
          "\<not> list_ex (\<lambda>t. strict_eq t bobToken) [annToken]"
          "\<forall>x. run_hook (onLogout cfg0) x = None"
    by (simp_all add: db0_def ann_def get_prop_Cons annToken_def bobToken_def run_hook_def
          cfg0_def)
  show ?thesis
    using logout_absent_token[of db0 "Str ''u1''" ann "[annToken]" bobToken cfg0 9000 9500]
          logout_absent_token[of db0 "Str ''u9''" ann "[annToken]" bobToken cfg0 9000 9500]
          h none
    by simp
qed

text \<open>
  C8 as stated fails: the call changes a property of the user record, \<open>updatedAt\<close>.
\<close>

theorem logout_absent_token_changes_updatedAt:
  "tokens_of db0 (Str ''u1'') = [annToken] \<and>
   \<not> list_ex (\<lambda>t. strict_eq t bobToken) [annToken] \<and>
   stored_prop db0 (Str ''u1'') ''updatedAt'' = Date 5000 \<and>
   fst (logout cfg0 db0 9000 (Str ''u1'') bobToken) = Inr () \<and>
   stored_prop (snd (logout cfg0 db0 9000 (Str ''u1'') bobToken)) (Str ''u1'') ''updatedAt'' =
     Date 9000"
  by (simp add: logout_def tokens_of_def stored_prop_def run_hook_def adapter_defs util_defs
        example_defs)

section \<open>Rotation of refresh tokens\<close>

lemma verifyRefreshToken_Inr:
  "verifyRefreshToken cfg now T = Inr decoded \<Longrightarrow>
     T = Jwt decoded (jwt_refreshSecret cfg) \<and> get_prop decoded ''type'' = Str ''refresh''"
  by (cases T) (auto simp: verifyRefreshToken_def split: if_splits jsval.splits sum.splits)

lemma token_iat_generateRefreshToken:
  "token_iat (generateRefreshToken cfg now payload) = Num (int (now div 1000))"
  by (simp add: generateRefreshToken_def jwt_sign_def get_prop_put_prop)

lemma refreshToken_success:
  assumes wf: "wf_db users"
      and ok: "refreshToken cfg users now T = (Inr r, users')"
  shows "\<exists>claims k user ts u'.
           T = Jwt claims (jwt_refreshSecret cfg) \<and> get_prop claims ''id'' = Str k \<and>
           map_of users k = Some user \<and> get_prop user ''refreshTokens'' = Arr ts \<and>
           T \<in> set ts \<and>
           res_refreshToken r = generateRefreshToken cfg now [(''id'', Str k)] \<and>
           users' = AList.update k u' users \<and>
           get_prop u' ''refreshTokens'' =
             Arr (filter (\<lambda>t. t \<noteq> T) ts @ [res_refreshToken r])"
proof -
  from ok obtain decoded where v: "verifyRefreshToken cfg now T = Inr decoded"
    by (auto simp: refreshToken_def split: sum.splits)
  from verifyRefreshToken_Inr[OF v] have T: "T = Jwt decoded (jwt_refreshSecret cfg)"
    by simp
  from ok v obtain user where f: "users_get users (get_prop decoded ''id'') = Some user"
    by (auto simp: refreshToken_def findUserById_def split: option.splits)
  from users_get_Str[OF f] obtain k where k: "get_prop decoded ''id'' = Str k"
    and m: "map_of users k = Some user" by blast
  from wf_user_cases[OF wf_db_lookup[OF wf m]] obtain ts where
    uid: "get_prop user ''id'' = Str k" and ts: "get_prop user ''refreshTokens'' = Arr ts"
    by blast
  let ?new = "generateRefreshToken cfg now [(''id'', Str k)]"
  let ?kept = "filter (\<lambda>t. t \<noteq> T) ts"
  let ?u1 = "put_prop ''updatedAt'' (Date now) (put_prop ''refreshTokens'' (Arr ?kept) user)"
  let ?u2 = "put_prop ''updatedAt'' (Date now)
               (put_prop ''refreshTokens'' (Arr (?kept @ [?new])) ?u1)"
  have rm: "removeRefreshToken users now (Str k) T = Inr (AList.update k ?u1 users)"
    using m ts by (simp add: removeRefreshToken_def T filter_strict_eq_Jwt)
  have ad: "addRefreshToken (AList.update k ?u1 users) now (Str k) ?new =
              Inr (AList.update k ?u2 users)"
    by (simp add: addRefreshToken_def update_conv' get_prop_put_prop)
  have new: "refreshToken_of (generateTokens cfg now user) = ?new"
    by (simp add: generateTokens_def generateRefreshToken_def uid get_prop_Cons)
  have "T \<in> set ts \<and> res_refreshToken r = ?new \<and> users' = AList.update k ?u2 users"
    using ok v f k uid ts rm ad new
    by (auto simp: refreshToken_def findUserById_def Let_def T list_ex_strict_eq_Jwt
             split: if_splits)
  moreover have "get_prop ?u2 ''refreshTokens'' = Arr (?kept @ [?new])"
    by (simp add: get_prop_put_prop)
  ultimately show ?thesis
    using T k m ts by auto
qed

lemma refreshToken_absent:
  assumes u: "users_get users (token_id T) = Some u"
      and ts: "get_prop u ''refreshTokens'' = Arr ts"
      and absent: "T \<notin> set ts"
  shows "isl (fst (refreshToken cfg users later T)) \<and>
         (\<not> isl (verifyRefreshToken cfg later T) \<longrightarrow>
            refreshToken cfg users later T =
              (Inl (AuthenticationError ''Invalid refresh token''), users))"
proof (cases "verifyRefreshToken cfg later T")
  case (Inl e)
  then show ?thesis by (simp add: refreshToken_def)
next
  case (Inr decoded)
  from verifyRefreshToken_Inr[OF Inr] have T: "T = Jwt decoded (jwt_refreshSecret cfg)"
    by simp
  have "refreshToken cfg users later T =
          (Inl (AuthenticationError ''Invalid refresh token''), users)"
    using u ts absent Inr
    by (simp add: refreshToken_def findUserById_def T list_ex_strict_eq_Jwt)
  then show ?thesis by simp
qed

text \<open>
  What a successful \<open>refreshToken(T)\<close> call does to the set, on a store that satisfies
  its invariant: \<open>T\<close> was in the set of the user named by its \<open>id\<close> claim, every
  occurrence of \<open>T\<close> is filtered out and the token the call returns is pushed. Provided
  the pushed token is not \<open>T\<close> itself, \<open>T\<close> is gone from the set and a second
  \<open>refreshToken(T)\<close> call fails, with \<open>AuthenticationError\<close> while \<open>T\<close> still passes
  verification. A token issued in another second than \<open>T\<close> is not \<open>T\<close>.
\<close>

lemma refreshToken_rotation:
  "wf_db users \<and> refreshToken cfg users now T = (Inr r, users') \<longrightarrow>
     T \<in> set (tokens_of users (token_id T)) \<and>
     res_refreshToken r = generateRefreshToken cfg now [(''id'', token_id T)] \<and>
     tokens_of users' (token_id T) =
       filter (\<lambda>t. t \<noteq> T) (tokens_of users (token_id T)) @ [res_refreshToken r] \<and>
     (token_iat T \<noteq> Num (int (now div 1000)) \<longrightarrow> res_refreshToken r \<noteq> T) \<and>
     (res_refreshToken r \<noteq> T \<longrightarrow>
        T \<notin> set (tokens_of users' (token_id T)) \<and>
        isl (fst (refreshToken cfg users' later T)) \<and>
        (\<not> isl (verifyRefreshToken cfg later T) \<longrightarrow>
           refreshToken cfg users' later T =
             (Inl (AuthenticationError ''Invalid refresh token''), users')))"
proof (intro impI, elim conjE)
  assume wf: "wf_db users" and ok: "refreshToken cfg users now T = (Inr r, users')"
  from refreshToken_success[OF wf ok] obtain claims k user ts u' where
    T: "T = Jwt claims (jwt_refreshSecret cfg)" and k: "get_prop claims ''id'' = Str k"
    and m: "map_of users k = Some user" and ts: "get_prop user ''refreshTokens'' = Arr ts"
    and mem: "T \<in> set ts"
    and new: "res_refreshToken r = generateRefreshToken cfg now [(''id'', Str k)]"
    and users': "users' = AList.update k u' users"
    and ts': "get_prop u' ''refreshTokens'' = Arr (filter (\<lambda>t. t \<noteq> T) ts @ [res_refreshToken r])"
    by blast
  have id: "token_id T = Str k"
    using T k by simp
  have before: "tokens_of users (token_id T) = ts"
    using m ts by (simp add: id tokens_of_def)
  have u': "users_get users' (token_id T) = Some u'"
    by (simp add: id users' update_conv')
  have after: "tokens_of users' (token_id T) = filter (\<lambda>t. t \<noteq> T) ts @ [res_refreshToken r]"
    using u' ts' by (simp add: tokens_of_def)
  have fresh: "res_refreshToken r \<noteq> T" if "token_iat T \<noteq> Num (int (now div 1000))"
    using that token_iat_generateRefreshToken[of cfg now "[(''id'', Str k)]"] new by auto
  have second:
    "T \<notin> set (tokens_of users' (token_id T)) \<and>
     isl (fst (refreshToken cfg users' later T)) \<and>
     (\<not> isl (verifyRefreshToken cfg later T) \<longrightarrow>
        refreshToken cfg users' later T =
          (Inl (AuthenticationError ''Invalid refresh token''), users'))"
    if "res_refreshToken r \<noteq> T"
  proof -
    have gone: "T \<notin> set (filter (\<lambda>t. t \<noteq> T) ts @ [res_refreshToken r])"
      using that by auto
    show ?thesis
      using refreshToken_absent[OF u' ts' gone] gone after by simp
  qed
  show "T \<in> set (tokens_of users (token_id T)) \<and>
     res_refreshToken r = generateRefreshToken cfg now [(''id'', token_id T)] \<and>
     tokens_of users' (token_id T) =
       filter (\<lambda>t. t \<noteq> T) (tokens_of users (token_id T)) @ [res_refreshToken r] \<and>
     (token_iat T \<noteq> Num (int (now div 1000)) \<longrightarrow> res_refreshToken r \<noteq> T) \<and>
     (res_refreshToken r \<noteq> T \<longrightarrow>
        T \<notin> set (tokens_of users' (token_id T)) \<and>
        isl (fst (refreshToken cfg users' later T)) \<and>
        (\<not> isl (verifyRefreshToken cfg later T) \<longrightarrow>
           refreshToken cfg users' later T =
             (Inl (AuthenticationError ''Invalid refresh token''), users')))"
    using mem new fresh second before after id by simp
qed

lemma refreshToken_rotation_example:
  "wf_db db0 \<and>
   \<not> isl (fst (refreshToken cfg0 db0 9000 annToken)) \<and>
   token_iat annToken \<noteq> Num (int (9000 div 1000)) \<and>
   res_refreshToken (projr (fst (refreshToken cfg0 db0 9000 annToken))) \<noteq> annToken \<and>
   \<not> isl (verifyRefreshToken cfg0 9500 annToken) \<and>
   refreshToken cfg0 (snd (refreshToken cfg0 db0 9000 annToken)) 9500 annToken =
     (Inl (AuthenticationError ''Invalid refresh token''),
      snd (refreshToken cfg0 db0 9000 annToken))"
proof -
  let ?first = "refreshToken cfg0 db0 9000 annToken"
  have wf: "wf_db db0"
    by (simp add: wf_db_def wf_user_def get_prop_Cons example_defs)
  have ok: "\<not> isl (fst ?first)"
    by (simp add: refreshToken_def adapter_defs util_defs example_defs)
  have eq: "?first = (Inr (projr (fst ?first)), snd ?first)"
    using ok by (simp add: prod_eq_iff)
  have iat: "token_iat annToken \<noteq> Num (int (9000 div 1000))"
    by (simp add: annToken_def get_prop_Cons)
  have valid: "\<not> isl (verifyRefreshToken cfg0 9500 annToken)"
    by (simp add: util_defs example_defs)
  show ?thesis
    using refreshToken_rotation
            [of db0 cfg0 9000 annToken "projr (fst ?first)" "snd ?first" 9500]
          wf ok eq iat valid
    by blast
qed

text \<open>
  C3. A successful \<open>refreshToken(T)\<close> call must rotate: \<open>T\<close> leaves the persisted set, a
  fresh refresh token enters it, and a second \<open>refreshToken(T)\<close> call fails. The code
  removes \<open>T\<close>, signs a token and stores it, but what it signs is only the user id, the
  type and the second of the clock: when Ann's token, issued in second 5, is refreshed
  in second 5, the token that is signed is the very string \<open>T\<close>. The call hands \<open>T\<close>
  back, \<open>T\<close> is in the set again, and the second \<open>refreshToken(T)\<close> call succeeds.
\<close>

theorem refreshToken_same_second_keeps_token:
  "tokens_of db0 (Str ''u1'') = [annToken] \<and>
   \<not> isl (fst (refreshToken cfg0 db0 5400 annToken)) \<and>
   res_refreshToken (projr (fst (refreshToken cfg0 db0 5400 annToken))) = annToken \<and>
   tokens_of (snd (refreshToken cfg0 db0 5400 annToken)) (Str ''u1'') = [annToken] \<and>
   \<not> isl (fst (refreshToken cfg0 (snd (refreshToken cfg0 db0 5400 annToken)) 5800 annToken))"
  by (simp add: refreshToken_def tokens_of_def adapter_defs util_defs example_defs)

text \<open>
  The same on a fresh store: a user registers at 9000 ms and presents the refresh token
  of the registration at 9300 ms and again at 9600 ms. The first refresh returns the
  same string, and the second succeeds.
\<close>

lemma register_then_refresh_twice:
  "\<not> isl (fst (register cfg0 [] ''u1'' 9000 cara)) \<and>
   \<not> isl (fst (refreshToken cfg0 (snd (register cfg0 [] ''u1'' 9000 cara)) 9300
                 (res_refreshToken (projr (fst (register cfg0 [] ''u1'' 9000 cara)))))) \<and>
   res_refreshToken (projr (fst (refreshToken cfg0 (snd (register cfg0 [] ''u1'' 9000 cara)) 9300
      (res_refreshToken (projr (fst (register cfg0 [] ''u1'' 9000 cara))))))) =
     res_refreshToken (projr (fst (register cfg0 [] ''u1'' 9000 cara))) \<and>
   \<not> isl (fst (refreshToken cfg0
                 (snd (refreshToken cfg0 (snd (register cfg0 [] ''u1'' 9000 cara)) 9300
                         (res_refreshToken (projr (fst (register cfg0 [] ''u1'' 9000 cara))))))
                 9600 (res_refreshToken (projr (fst (register cfg0 [] ''u1'' 9000 cara))))))"
  by (simp add: register_def refreshToken_def aliased_def run_hook_def adapter_defs util_defs
        example_defs)

section \<open>refreshToken and deactivated accounts\<close>

text \<open>
  C1. A deactivated user must not receive new tokens, and \<open>refreshToken\<close> with a valid,
  unexpired refresh token of the persisted set of a deactivated user should throw. The
  code does not look at \<open>isActive\<close> in \<open>refreshToken\<close> (\<open>login\<close> does): for Bob, who is
  deactivated, the call returns a new access and refresh pair and persists the new
  refresh token.
\<close>

theorem refreshToken_ignores_isActive:
  "get_prop bob ''isActive'' = Bool False \<and>
   users_get db0 (Str ''u2'') = Some bob \<and>
   tokens_of db0 (Str ''u2'') = [bobToken] \<and>
   verifyRefreshToken cfg0 9000 bobToken =
     Inr [(''id'', Str ''u2''), (''type'', Str ''refresh''), (''iat'', Num 5),
          (''exp'', Num 604805)] \<and>
   fst (refreshToken cfg0 db0 9000 bobToken) =
     Inr (AuthResult (sanitizeUser bob)
            (Jwt [(''id'', Str ''u2''), (''email'', Str ''bob@x.com''), (''role'', Str ''user''),
                  (''iat'', Num 9), (''exp'', Num 909)] ''access-secret'')
            (Jwt [(''id'', Str ''u2''), (''type'', Str ''refresh''), (''iat'', Num 9),
                  (''exp'', Num 604809)] ''refresh-secret'')) \<and>
   tokens_of (snd (refreshToken cfg0 db0 9000 bobToken)) (Str ''u2'') =
     [Jwt [(''id'', Str ''u2''), (''type'', Str ''refresh''), (''iat'', Num 9),
           (''exp'', Num 604809)] ''refresh-secret'']"
  by (simp add: refreshToken_def tokens_of_def adapter_defs util_defs example_defs)

section \<open>A password reset or change revokes every refresh token\<close>

lemma verifyPasswordResetToken_Inr:
  "verifyPasswordResetToken cfg now tok = Inr decoded \<Longrightarrow> tok = Jwt decoded (jwt_secret cfg)"
  by (cases tok)
     (auto simp: verifyPasswordResetToken_def split: if_splits jsval.splits sum.splits)

lemma password_stored_tokens_cleared:
  assumes wf: "wf_db users" and u: "users_get users ident = Some user"
  shows "\<exists>u'. users_get (removeAllRefreshTokens
                   (snd (updateUser users now (get_prop user ''id'') [(''password'', h)])) now
                   (get_prop user ''id'')) ident = Some u' \<and>
              get_prop u' ''refreshTokens'' = Arr []"
proof -
  from users_get_Str[OF u] obtain k where k: "ident = Str k" and m: "map_of users k = Some user"
    by blast
  from wf_user_cases[OF wf_db_lookup[OF wf m]] have uid: "get_prop user ''id'' = Str k"
    by simp
  let ?u' = "put_prop ''updatedAt'' (Date now)
               (put_prop ''id'' (get_prop user ''id'') (spread user [(''password'', h)]))"
  have upd: "updateUser users now (Str k) [(''password'', h)] =
               (Inr ?u', AList.update k ?u' users)"
    using m by (simp add: updateUser_def Let_def)
  show ?thesis
    using upd k uid
    by (simp add: removeAllRefreshTokens_def update_conv' get_prop_put_prop)
qed

lemma cleared_refresh_fails:
  assumes "users_get db ident = Some u" and "get_prop u ''refreshTokens'' = Arr []"
      and "token_id T = ident"
  shows "isl (fst (refreshToken cfg db later T)) \<and>
         (\<not> isl (verifyRefreshToken cfg later T) \<longrightarrow>
            refreshToken cfg db later T =
              (Inl (AuthenticationError ''Invalid refresh token''), db))"
  using refreshToken_absent[of db T u "[]" cfg later] assms by simp

text \<open>
  C4 (as amended). After any successful \<open>resetPassword(token, newPassword)\<close> or
  \<open>changePassword(userId, currentPassword, newPassword)\<close> call on a store that
  satisfies its invariant, the affected user is still stored and the refresh-token set
  of that user is empty, so every refresh token \<open>T\<close> of that user subsequently fails
  \<open>refreshToken()\<close>: with \<open>AuthenticationError\<close> (\<open>Invalid refresh token\<close>) as long as
  \<open>T\<close> still passes verification, and with the plain \<open>Error\<close> of the verifier
  (\<open>Refresh token has expired\<close>) once \<open>T\<close> has expired.
\<close>

theorem password_change_clears_tokens:
  "wf_db users \<longrightarrow>
     (resetPassword cfg users now tok newPassword = (Inr (), users') \<longrightarrow>
        users_get users' (token_id tok) \<noteq> None \<and>
        tokens_of users' (token_id tok) = [] \<and>
        (token_id T = token_id tok \<longrightarrow>
           isl (fst (refreshToken cfg users' later T)) \<and>
           (\<not> isl (verifyRefreshToken cfg later T) \<longrightarrow>
              refreshToken cfg users' later T =
                (Inl (AuthenticationError ''Invalid refresh token''), users')))) \<and>
     (changePassword cfg users now userId currentPassword newPassword = (Inr (), users'') \<longrightarrow>
        users_get users'' userId \<noteq> None \<and>
        tokens_of users'' userId = [] \<and>
        (token_id T = userId \<longrightarrow>
           isl (fst (refreshToken cfg users'' later T)) \<and>
           (\<not> isl (verifyRefreshToken cfg later T) \<longrightarrow>
              refreshToken cfg users'' later T =
                (Inl (AuthenticationError ''Invalid refresh token''), users'')))) \<and>
     (jwt_verify T (jwt_refreshSecret cfg) later = Inl (TokenExpiredError m) \<longrightarrow>
        refreshToken cfg db later T = (Inl (Error ''Refresh token has expired''), db))"
proof (intro impI)
  assume wf: "wf_db users"
  have reset:
    "users_get users' (token_id tok) \<noteq> None \<and>
     tokens_of users' (token_id tok) = [] \<and>
     (token_id T = token_id tok \<longrightarrow>
        isl (fst (refreshToken cfg users' later T)) \<and>
        (\<not> isl (verifyRefreshToken cfg later T) \<longrightarrow>
           refreshToken cfg users' later T =
             (Inl (AuthenticationError ''Invalid refresh token''), users')))"
    if ok: "resetPassword cfg users now tok newPassword = (Inr (), users')"
  proof -
    from ok obtain decoded where v: "verifyPasswordResetToken cfg now tok = Inr decoded"
      by (auto simp: resetPassword_def split: sum.splits)
    from verifyPasswordResetToken_Inr[OF v] have id: "get_prop decoded ''id'' = token_id tok"
      by simp
    from ok v obtain user where u: "users_get users (token_id tok) = Some user"
      by (auto simp: resetPassword_def findUserById_def id split: option.splits)
    from ok v u have "\<exists>h. users' = removeAllRefreshTokens
                 (snd (updateUser users now (get_prop user ''id'') [(''password'', h)])) now
                 (get_prop user ''id'')"
      by (auto simp: resetPassword_def findUserById_def id Let_def
               split: sum.splits prod.splits option.splits)
         (metis snd_conv)+
    then obtain h where
      users': "users' = removeAllRefreshTokens
                 (snd (updateUser users now (get_prop user ''id'') [(''password'', h)])) now
                 (get_prop user ''id'')"
      by blast
    from password_stored_tokens_cleared[OF wf u, of now h] users'
    obtain u' where u': "users_get users' (token_id tok) = Some u'"
      and ts: "get_prop u' ''refreshTokens'' = Arr []"
      by auto
    show ?thesis
      using u' ts cleared_refresh_fails[OF u' ts, of T cfg later]
      by (simp add: tokens_of_def)
  qed
  have expired:
    "refreshToken cfg db later T = (Inl (Error ''Refresh token has expired''), db)"
    if "jwt_verify T (jwt_refreshSecret cfg) later = Inl (TokenExpiredError m)"
    using that by (simp add: refreshToken_def verifyRefreshToken_def)
  have change:
    "users_get users'' userId \<noteq> None \<and>
     tokens_of users'' userId = [] \<and>
     (token_id T = userId \<longrightarrow>
        isl (fst (refreshToken cfg users'' later T)) \<and>
        (\<not> isl (verifyRefreshToken cfg later T) \<longrightarrow>
           refreshToken cfg users'' later T =
             (Inl (AuthenticationError ''Invalid refresh token''), users'')))"
    if ok: "changePassword cfg users now userId currentPassword newPassword = (Inr (), users'')"
  proof -
    from ok obtain user where u: "users_get users userId = Some user"
      by (auto simp: changePassword_def findUserById_def split: option.splits)
    from ok u have "\<exists>h. users'' = removeAllRefreshTokens
                 (snd (updateUser users now (get_prop user ''id'') [(''password'', h)])) now
                 (get_prop user ''id'')"
      by (auto simp: changePassword_def findUserById_def Let_def
               split: sum.splits prod.splits option.splits if_splits)
         (metis snd_conv)+
    then obtain h where
      users'': "users'' = removeAllRefreshTokens
                 (snd (updateUser users now (get_prop user ''id'') [(''password'', h)])) now
                 (get_prop user ''id'')"
      by blast
    from password_stored_tokens_cleared[OF wf u, of now h] users''
    obtain u' where u': "users_get users'' userId = Some u'"
      and ts: "get_prop u' ''refreshTokens'' = Arr []"
      by auto
    show ?thesis
      using u' ts cleared_refresh_fails[OF u' ts, of T cfg later]
      by (simp add: tokens_of_def)
  qed
  show "(resetPassword cfg users now tok newPassword = (Inr (), users') \<longrightarrow>
        users_get users' (token_id tok) \<noteq> None \<and>
        tokens_of users' (token_id tok) = [] \<and>
        (token_id T = token_id tok \<longrightarrow>
           isl (fst (refreshToken cfg users' later T)) \<and>
           (\<not> isl (verifyRefreshToken cfg later T) \<longrightarrow>
              refreshToken cfg users' later T =
                (Inl (AuthenticationError ''Invalid refresh token''), users')))) \<and>
     (changePassword cfg users now userId currentPassword newPassword = (Inr (), users'') \<longrightarrow>
        users_get users'' userId \<noteq> None \<and>
        tokens_of users'' userId = [] \<and>
        (token_id T = userId \<longrightarrow>
           isl (fst (refreshToken cfg users'' later T)) \<and>
           (\<not> isl (verifyRefreshToken cfg later T) \<longrightarrow>
              refreshToken cfg users'' later T =
                (Inl (AuthenticationError ''Invalid refresh token''), users'')))) \<and>
     (jwt_verify T (jwt_refreshSecret cfg) later = Inl (TokenExpiredError m) \<longrightarrow>
        refreshToken cfg db later T = (Inl (Error ''Refresh token has expired''), db))"
    using reset change expired by blast
qed

theorem password_change_clears_tokens_witness:
  "wf_db db0 \<and>
   fst (resetPassword cfg0 db0 7000 (generatePasswordResetToken cfg0 6000 (Str ''u1''))
          (Str ''N3w!Passw0rd'')) = Inr () \<and>
   fst (changePassword cfg0 db0 7000 (Str ''u1'') (Str ''Str0ng!Pass'') (Str ''N3w!Passw0rd''))
     = Inr () \<and>
   token_id annToken = Str ''u1'' \<and>
   tokens_of db0 (Str ''u1'') = [annToken] \<and>
   \<not> isl (verifyRefreshToken cfg0 8000 annToken) \<and>
   tokens_of (snd (resetPassword cfg0 db0 7000
                     (generatePasswordResetToken cfg0 6000 (Str ''u1'')) (Str ''N3w!Passw0rd'')))
     (Str ''u1'') = [] \<and>
   fst (refreshToken cfg0
          (snd (resetPassword cfg0 db0 7000 (generatePasswordResetToken cfg0 6000 (Str ''u1''))
                  (Str ''N3w!Passw0rd''))) 8000 annToken) =
     Inl (AuthenticationError ''Invalid refresh token'') \<and>
   tokens_of (snd (changePassword cfg0 db0 7000 (Str ''u1'') (Str ''Str0ng!Pass'')
                     (Str ''N3w!Passw0rd''))) (Str ''u1'') = [] \<and>
   fst (refreshToken cfg0
          (snd (changePassword cfg0 db0 7000 (Str ''u1'') (Str ''Str0ng!Pass'')
                  (Str ''N3w!Passw0rd''))) 8000 annToken) =
     Inl (AuthenticationError ''Invalid refresh token'') \<and>
   jwt_verify annToken (jwt_refreshSecret cfg0) 604805000 =
     Inl (TokenExpiredError ''jwt expired'') \<and>
   fst (refreshToken cfg0
          (snd (changePassword cfg0 db0 7000 (Str ''u1'') (Str ''Str0ng!Pass'')
                  (Str ''N3w!Passw0rd''))) 604805000 annToken) =
     Inl (Error ''Refresh token has expired'')"
proof -
  let ?tok = "generatePasswordResetToken cfg0 6000 (Str ''u1'')"
  let ?reset = "resetPassword cfg0 db0 7000 ?tok (Str ''N3w!Passw0rd'')"
  let ?change = "changePassword cfg0 db0 7000 (Str ''u1'') (Str ''Str0ng!Pass'')
                   (Str ''N3w!Passw0rd'')"
  have wf: "wf_db db0"
    by (simp add: wf_db_def wf_user_def get_prop_Cons example_defs)
  have ok: "fst ?reset = Inr ()" "fst ?change = Inr ()"
    by (simp_all add: resetPassword_def changePassword_def run_hook_def adapter_defs util_defs
          example_defs)
  have eqs: "?reset = (Inr (), snd ?reset)" "?change = (Inr (), snd ?change)"
    using ok by (simp_all add: prod_eq_iff)
  have ids: "token_id annToken = Str ''u1''" "token_id ?tok = Str ''u1''"
    by (simp_all add: annToken_def generatePasswordResetToken_def jwt_sign_def get_prop_Cons
          get_prop_put_prop)
  have before: "tokens_of db0 (Str ''u1'') = [annToken]"
    by (simp add: tokens_of_def db0_def ann_def get_prop_Cons)
  have valid: "\<not> isl (verifyRefreshToken cfg0 8000 annToken)"
    by (simp add: util_defs example_defs)
  have late: "jwt_verify annToken (jwt_refreshSecret cfg0) 604805000 =
                Inl (TokenExpiredError ''jwt expired'')"
    by (simp add: annToken_def cfg0_def get_prop_Cons)
  have main:
    "tokens_of (snd ?reset) (Str ''u1'') = [] \<and>
     fst (refreshToken cfg0 (snd ?reset) 8000 annToken) =
       Inl (AuthenticationError ''Invalid refresh token'') \<and>
     tokens_of (snd ?change) (Str ''u1'') = [] \<and>
     fst (refreshToken cfg0 (snd ?change) 8000 annToken) =
       Inl (AuthenticationError ''Invalid refresh token'')"
    using password_change_clears_tokens
            [of db0 cfg0 7000 ?tok "Str ''N3w!Passw0rd''" "snd ?reset" annToken 8000
                "Str ''u1''" "Str ''Str0ng!Pass''" "snd ?change"]
          wf ok eqs ids before valid
    by (simp add: prod_eq_iff)
  have gone: "fst (refreshToken cfg0 (snd ?change) 604805000 annToken) =
                Inl (Error ''Refresh token has expired'')"
    using password_change_clears_tokens
            [of db0 cfg0 7000 ?tok "Str ''N3w!Passw0rd''" "snd ?reset" annToken 604805000
                "Str ''u1''" "Str ''Str0ng!Pass''" "snd ?change" "''jwt expired''"
                "snd ?change"]
          wf late
    by simp
  show ?thesis
    using wf ok ids before valid main late gone by simp
qed

text \<open>
  C4 as stated fails for the class of the error: a refresh token issued before the call
  that has expired by the time it is presented fails with the plain \<open>Error\<close> of the
  verifier, not with \<open>AuthenticationError\<close>.
\<close>

theorem expired_token_after_password_change:
  "tokens_of db0 (Str ''u1'') = [annToken] \<and>
   fst (changePassword cfg0 db0 7000 (Str ''u1'') (Str ''Str0ng!Pass'') (Str ''N3w!Passw0rd''))
     = Inr () \<and>
   fst (refreshToken cfg0
          (snd (changePassword cfg0 db0 7000 (Str ''u1'') (Str ''Str0ng!Pass'')
                  (Str ''N3w!Passw0rd''))) 604805000 annToken) =
     Inl (Error ''Refresh token has expired'')"
  by (simp add: refreshToken_def changePassword_def tokens_of_def adapter_defs util_defs
        example_defs)

section \<open>Token verifiers and the \<open>type\<close> claim\<close>

lemma jwt_verify_sign:
  "jwt_verify (jwt_sign payload secret expiresIn issued) secret' now =
     (if secret \<noteq> secret' then Inl (JsonWebTokenError ''invalid signature'')
      else if issued div 1000 + expiresIn \<le> now div 1000
      then Inl (TokenExpiredError ''jwt expired'')
      else Inr (put_prop ''exp'' (Num (int (issued div 1000 + expiresIn)))
                  (put_prop ''iat'' (Num (int (issued div 1000))) payload)))"
  by (simp add: jwt_sign_def get_prop_put_prop)

text \<open>
  C5 (as amended). The refresh, email-verification and password-reset verifiers never
  return the claims of a token whose \<open>type\<close> claim is not the verifier's own: such a
  token is rejected, and when it passes the signature and expiry check it is rejected
  with a plain \<open>Error\<close> whose message is \<open>Invalid token type\<close>. A refresh token and a
  password-reset token presented to the email-verification verifier are rejected; the
  password-reset token, signed with the same secret, is rejected for its type while it
  is unexpired. A token with the right signature whose expiry has passed is rejected by
  each verifier with a plain \<open>Error\<close> whose message says that the token of that class
  has expired.
\<close>

theorem typed_verifiers_reject_other_types:
  "(jwt_verify token (jwt_refreshSecret cfg) now = Inr claims \<and>
      get_prop claims ''type'' \<noteq> Str ''refresh'' \<longrightarrow>
      verifyRefreshToken cfg now token = Inl (Error ''Invalid token type'')) \<and>
   (jwt_verify token (jwt_secret cfg) now = Inr claims \<and>
      get_prop claims ''type'' \<noteq> Str ''email-verification'' \<longrightarrow>
      verifyEmailVerificationToken cfg now token = Inl (Error ''Invalid token type'')) \<and>
   (jwt_verify token (jwt_secret cfg) now = Inr claims \<and>
      get_prop claims ''type'' \<noteq> Str ''password-reset'' \<longrightarrow>
      verifyPasswordResetToken cfg now token = Inl (Error ''Invalid token type'')) \<and>
   isl (verifyEmailVerificationToken cfg now (generateRefreshToken cfg issued payload)) \<and>
   isl (verifyEmailVerificationToken cfg now (generatePasswordResetToken cfg issued userId)) \<and>
   (now div 1000 < issued div 1000 + passwordResetExpiresIn cfg \<longrightarrow>
      verifyEmailVerificationToken cfg now (generatePasswordResetToken cfg issued userId) =
        Inl (Error ''Invalid token type'')) \<and>
   (jwt_verify token (jwt_secret cfg) now = Inl (TokenExpiredError m) \<longrightarrow>
      verifyAccessToken cfg now token = Inl (Error ''Access token has expired'') \<and>
      verifyEmailVerificationToken cfg now token =
        Inl (Error ''Email verification token has expired'') \<and>
      verifyPasswordResetToken cfg now token =
        Inl (Error ''Password reset token has expired'')) \<and>
   (jwt_verify token (jwt_refreshSecret cfg) now = Inl (TokenExpiredError m) \<longrightarrow>
      verifyRefreshToken cfg now token = Inl (Error ''Refresh token has expired'')) \<and>
   (get_prop claims ''type'' \<noteq> Str ''refresh'' \<longrightarrow>
      isl (verifyRefreshToken cfg now (Jwt claims key))) \<and>
   (get_prop claims ''type'' \<noteq> Str ''email-verification'' \<longrightarrow>
      isl (verifyEmailVerificationToken cfg now (Jwt claims key))) \<and>
   (get_prop claims ''type'' \<noteq> Str ''password-reset'' \<longrightarrow>
      isl (verifyPasswordResetToken cfg now (Jwt claims key)))"
proof -
  have never_refresh: "isl (verifyRefreshToken cfg now (Jwt claims key))"
    if "get_prop claims ''type'' \<noteq> Str ''refresh''"
    using that by (simp add: verifyRefreshToken_def split: jsval.splits)
  have never_email: "isl (verifyEmailVerificationToken cfg now (Jwt claims key))"
    if "get_prop claims ''type'' \<noteq> Str ''email-verification''"
    using that by (simp add: verifyEmailVerificationToken_def split: jsval.splits)
  have never_reset: "isl (verifyPasswordResetToken cfg now (Jwt claims key))"
    if "get_prop claims ''type'' \<noteq> Str ''password-reset''"
    using that by (simp add: verifyPasswordResetToken_def split: jsval.splits)
  have mismatch:
    "verifyRefreshToken cfg now token = Inl (Error ''Invalid token type'')"
      if "jwt_verify token (jwt_refreshSecret cfg) now = Inr claims"
         "get_prop claims ''type'' \<noteq> Str ''refresh''" for claims
    using that by (simp add: verifyRefreshToken_def)
  have mismatch_email:
    "verifyEmailVerificationToken cfg now tok = Inl (Error ''Invalid token type'')"
      if "jwt_verify tok (jwt_secret cfg) now = Inr claims"
         "get_prop claims ''type'' \<noteq> Str ''email-verification''" for claims tok
    using that by (simp add: verifyEmailVerificationToken_def)
  have mismatch_reset:
    "verifyPasswordResetToken cfg now token = Inl (Error ''Invalid token type'')"
      if "jwt_verify token (jwt_secret cfg) now = Inr claims"
         "get_prop claims ''type'' \<noteq> Str ''password-reset''" for claims
    using that by (simp add: verifyPasswordResetToken_def)
  have refresh_to_email:
    "isl (verifyEmailVerificationToken cfg now (generateRefreshToken cfg issued payload))"
    by (simp add: verifyEmailVerificationToken_def generateRefreshToken_def jwt_verify_sign
          get_prop_put_prop get_prop_Cons)
  have reset_to_email:
    "isl (verifyEmailVerificationToken cfg now (generatePasswordResetToken cfg issued userId))"
    by (simp add: verifyEmailVerificationToken_def generatePasswordResetToken_def
          jwt_verify_sign get_prop_put_prop get_prop_Cons)
  have reset_to_email_type:
    "verifyEmailVerificationToken cfg now (generatePasswordResetToken cfg issued userId) =
       Inl (Error ''Invalid token type'')"
      if "now div 1000 < issued div 1000 + passwordResetExpiresIn cfg"
    using that
    by (simp add: verifyEmailVerificationToken_def generatePasswordResetToken_def
          jwt_verify_sign get_prop_put_prop get_prop_Cons)
  have expired:
    "verifyAccessToken cfg now token = Inl (Error ''Access token has expired'') \<and>
     verifyEmailVerificationToken cfg now token =
       Inl (Error ''Email verification token has expired'') \<and>
     verifyPasswordResetToken cfg now token = Inl (Error ''Password reset token has expired'')"
      if "jwt_verify token (jwt_secret cfg) now = Inl (TokenExpiredError m)"
    using that
    by (simp add: verifyAccessToken_def verifyEmailVerificationToken_def
          verifyPasswordResetToken_def)
  have expired_refresh:
    "verifyRefreshToken cfg now token = Inl (Error ''Refresh token has expired'')"
      if "jwt_verify token (jwt_refreshSecret cfg) now = Inl (TokenExpiredError m)"
    using that by (simp add: verifyRefreshToken_def)
  show ?thesis
    using mismatch mismatch_email mismatch_reset refresh_to_email reset_to_email
      reset_to_email_type expired expired_refresh never_refresh never_email never_reset
    by blast
qed

theorem typed_verifiers_reject_other_types_witness:
  "jwt_verify (Jwt [(''id'', Str ''u1''), (''exp'', Num 99)] ''refresh-secret'')
      (jwt_refreshSecret cfg0) 6000 = Inr [(''id'', Str ''u1''), (''exp'', Num 99)] \<and>
   verifyRefreshToken cfg0 6000 (Jwt [(''id'', Str ''u1''), (''exp'', Num 99)] ''refresh-secret'')
     = Inl (Error ''Invalid token type'') \<and>
   jwt_verify (generatePasswordResetToken cfg0 5000 (Str ''u1'')) (jwt_secret cfg0) 6000 =
     Inr [(''id'', Str ''u1''), (''type'', Str ''password-reset''), (''iat'', Num 5),
          (''exp'', Num 3600005)] \<and>
   verifyPasswordResetToken cfg0 6000 (generateEmailVerificationToken cfg0 5000 (Str ''u1''))
     = Inl (Error ''Invalid token type'') \<and>
   verifyEmailVerificationToken cfg0 6000 (generatePasswordResetToken cfg0 5000 (Str ''u1''))
     = Inl (Error ''Invalid token type'') \<and>
   isl (verifyEmailVerificationToken cfg0 6000 annToken) \<and>
   jwt_verify annToken (jwt_refreshSecret cfg0) 604805000 = Inl (TokenExpiredError ''jwt expired'') \<and>
   verifyRefreshToken cfg0 604805000 annToken = Inl (Error ''Refresh token has expired'') \<and>
   verifyAccessToken cfg0 3600005000 (generatePasswordResetToken cfg0 5000 (Str ''u1''))
     = Inl (Error ''Access token has expired'') \<and>
   get_prop [(''id'', Str ''u1''), (''exp'', Num 99)] ''type'' = Undefined \<and>
   isl (verifyRefreshToken cfg0 6000
          (Jwt [(''id'', Str ''u1''), (''exp'', Num 99)] ''forged-key'')) \<and>
   isl (verifyEmailVerificationToken cfg0 6000
          (Jwt [(''id'', Str ''u1''), (''exp'', Num 99)] ''forged-key'')) \<and>
   isl (verifyPasswordResetToken cfg0 6000
          (Jwt [(''id'', Str ''u1''), (''exp'', Num 99)] ''forged-key''))"
  using typed_verifiers_reject_other_types
          [of "Jwt [(''id'', Str ''u1''), (''exp'', Num 99)] ''refresh-secret''" cfg0 6000
              "[(''id'', Str ''u1''), (''exp'', Num 99)]" 5000 "[(''id'', Str ''u1'')]"
              "Str ''u1''" "''jwt expired''" "''forged-key''"]
        typed_verifiers_reject_other_types
          [of "generateEmailVerificationToken cfg0 5000 (Str ''u1'')" cfg0 6000
              "[(''id'', Str ''u1''), (''type'', Str ''email-verification''), (''iat'', Num 5),
                (''exp'', Num 86400005)]" 5000 "[(''id'', Str ''u1'')]"
              "Str ''u1''" "''jwt expired''"]
        typed_verifiers_reject_other_types
          [of "generatePasswordResetToken cfg0 5000 (Str ''u1'')" cfg0 6000
              "[(''id'', Str ''u1''), (''type'', Str ''password-reset''), (''iat'', Num 5),
                (''exp'', Num 3600005)]" 5000 "[(''id'', Str ''u1'')]"
              "Str ''u1''" "''jwt expired''"]
        typed_verifiers_reject_other_types
          [of annToken cfg0 604805000 "[]" 5000 "[(''id'', Str ''u1'')]"
              "Str ''u1''" "''jwt expired''"]
        typed_verifiers_reject_other_types
          [of "generatePasswordResetToken cfg0 5000 (Str ''u1'')" cfg0 3600005000 "[]" 5000
              "[(''id'', Str ''u1'')]" "Str ''u1''" "''jwt expired''"]
  by (simp add: util_defs example_defs)

text \<open>
  C5 as stated fails for the class of the error: a refresh token and a password-reset
  token presented to the email-verification verifier, and an expired refresh token
  presented to the refresh verifier, are rejected with the built-in \<open>Error\<close>, whose
  \<open>name\<close> is \<open>Error\<close>; the \<open>TokenExpiredError\<close> of the package is caught and replaced.
\<close>

theorem verifiers_throw_plain_Error:
  "verifyEmailVerificationToken cfg0 6000 annToken =
     Inl (Error ''Invalid email verification token'') \<and>
   verifyEmailVerificationToken cfg0 6000 (generatePasswordResetToken cfg0 5000 (Str ''u1'')) =
     Inl (Error ''Invalid token type'') \<and>
   jwt_verify annToken (jwt_refreshSecret cfg0) 604805000 =
     Inl (TokenExpiredError ''jwt expired'') \<and>
   verifyRefreshToken cfg0 604805000 annToken = Inl (Error ''Refresh token has expired'') \<and>
   error_name (projl (verifyEmailVerificationToken cfg0 6000 annToken)) = ''Error'' \<and>
   error_name (projl (verifyEmailVerificationToken cfg0 6000
                        (generatePasswordResetToken cfg0 5000 (Str ''u1'')))) = ''Error'' \<and>
   error_name (projl (verifyRefreshToken cfg0 604805000 annToken)) = ''Error''"
  by (simp add: util_defs example_defs)

text \<open>
  \<open>verifyAccessToken\<close>, unlike its three siblings, tests no \<open>type\<close> claim: presented
  with a password-reset token, which is signed with the same secret, it returns the
  claims.
\<close>

lemma access_verifier_accepts_reset_token:
  "verifyAccessToken cfg0 6000 (generatePasswordResetToken cfg0 5000 (Str ''u1'')) =
     Inr [(''id'', Str ''u1''), (''type'', Str ''password-reset''), (''iat'', Num 5),
          (''exp'', Num 3600005)]"
  by (simp add: util_defs example_defs)

section \<open>forgotPassword never reveals whether an email is registered\<close>

text \<open>
  C6. For an email that belongs to a user and for one that belongs to nobody,
  \<open>forgotPassword\<close> resolves (to \<open>undefined\<close>) and leaves the store as it was: the caller
  sees the same outcome in both runs. Whatever the body of the \<open>try\<close> throws, during the
  lookup or while the reset email is sent, is caught and not rethrown.
\<close>

theorem forgotPassword_enumeration_safe:
  "forgotPassword cfg users now existing = (Inr (), users) \<and>
   forgotPassword cfg users now missing = (Inr (), users) \<and>
   (forgotPassword_try cfg users now email = Inl e \<longrightarrow>
      forgotPassword cfg users now email = (Inr (), users))"
  by (simp add: forgotPassword_def split: sum.splits)

theorem forgotPassword_enumeration_safe_witness:
  "findUserByEmail db0 (Str ''ann@x.com'') = Inr (Some ann) \<and>
   findUserByEmail db0 (Str ''nobody@x.com'') = Inr None \<and>
   forgotPassword_try cfg_mail_down db0 7000 (Str ''ann@x.com'') =
     Inl (Error ''Failed to send email: connect ECONNREFUSED'') \<and>
   forgotPassword cfg_mail_down db0 7000 (Str ''ann@x.com'') = (Inr (), db0) \<and>
   forgotPassword cfg_mail_down db0 7000 (Str ''nobody@x.com'') = (Inr (), db0) \<and>
   forgotPassword_try cfg0 db0 7000 (Num 42) =
     Inl (TypeError ''toLowerCase is not a function'') \<and>
   forgotPassword cfg0 db0 7000 (Num 42) = (Inr (), db0)"
proof -
  have found: "findUserByEmail db0 (Str ''ann@x.com'') = Inr (Some ann)"
    and missing: "findUserByEmail db0 (Str ''nobody@x.com'') = Inr None"
    by (simp_all add: adapter_defs get_prop_def example_defs)
  have mail: "forgotPassword_try cfg_mail_down db0 7000 (Str ''ann@x.com'') =
                Inl (Error ''Failed to send email: connect ECONNREFUSED'')"
    by (simp add: forgotPassword_try_def found sendPasswordResetEmail_def sendEmail_def
          cfg_mail_down_def cfg0_def ann_def get_prop_def)
  have lookup: "forgotPassword_try cfg0 db0 7000 (Num 42) =
                  Inl (TypeError ''toLowerCase is not a function'')"
    by (simp add: forgotPassword_try_def findUserByEmail_def findUserByEmailSync_def db0_def)
  show ?thesis
    using forgotPassword_enumeration_safe
            [of cfg_mail_down db0 7000 "Str ''ann@x.com''" "Str ''nobody@x.com''"
                "Str ''ann@x.com''" "Error ''Failed to send email: connect ECONNREFUSED''"]
          forgotPassword_enumeration_safe
            [of cfg0 db0 7000 "Str ''ann@x.com''" "Str ''nobody@x.com''"
                "Num 42" "TypeError ''toLowerCase is not a function''"]
          found missing mail lookup
    by blast
qed

section \<open>Users handed back to the caller are sanitized\<close>

text \<open>
  C7. The user object that \<open>register\<close>, \<open>login\<close>, \<open>refreshToken\<close>, \<open>verifyEmail\<close>,
  \<open>getProfile\<close> and \<open>updateProfile\<close> return has neither a \<open>password\<close> property nor a
  \<open>refreshTokens\<close> property: the stored hash and the token list are stripped before the
  return.
\<close>

theorem returned_users_are_sanitized:
  "(register cfg users uuid now userData = (Inr r1, users1) \<longrightarrow> stripped (res_user r1)) \<and>
   (login cfg users now email password = (Inr r2, users2) \<longrightarrow> stripped (res_user r2)) \<and>
   (refreshToken cfg users now token = (Inr r3, users3) \<longrightarrow> stripped (res_user r3)) \<and>
   (verifyEmail cfg users now vtoken = (Inr u4, users4) \<longrightarrow> stripped u4) \<and>
   (getProfile users userId = Inr u5 \<longrightarrow> stripped u5) \<and>
   (updateProfile users now userId updates = (Inr u6, users6) \<longrightarrow> stripped u6)"
proof -
  have "register cfg users uuid now userData = (Inr r1, users1) \<Longrightarrow> stripped (res_user r1)"
    by (auto simp: register_def Let_def stripped_sanitizeUser
             split: sum.splits option.splits prod.splits if_splits)
  moreover
  have "login cfg users now email password = (Inr r2, users2) \<Longrightarrow> stripped (res_user r2)"
    by (auto simp: login_def Let_def stripped_sanitizeUser
             split: sum.splits option.splits prod.splits if_splits)
  moreover
  have "refreshToken cfg users now token = (Inr r3, users3) \<Longrightarrow> stripped (res_user r3)"
    by (auto simp: refreshToken_def Let_def stripped_sanitizeUser
             split: sum.splits option.splits prod.splits if_splits)
  moreover
  have "verifyEmail cfg users now vtoken = (Inr u4, users4) \<Longrightarrow> stripped u4"
    by (auto simp: verifyEmail_def Let_def stripped_sanitizeUser
             split: sum.splits option.splits prod.splits if_splits)
  moreover
  have "getProfile users userId = Inr u5 \<Longrightarrow> stripped u5"
    by (auto simp: getProfile_def stripped_sanitizeUser split: option.splits)
  moreover
  have "updateProfile users now userId updates = (Inr u6, users6) \<Longrightarrow> stripped u6"
    by (auto simp: updateProfile_def stripped_sanitizeUser split: sum.splits prod.splits)
  ultimately show ?thesis by blast
qed

theorem returned_users_are_sanitized_witness:
  "(case register cfg0 db0 ''u4'' 9000 cara of
      (Inr r, d) \<Rightarrow> stripped (res_user r) | _ \<Rightarrow> False) \<and>
   (case login cfg0 db0 9000 (Str ''Ann@x.com'') (Str ''Str0ng!Pass'') of
      (Inr r, d) \<Rightarrow> stripped (res_user r) | _ \<Rightarrow> False) \<and>
   (case refreshToken cfg0 db0 9000 annToken of
      (Inr r, d) \<Rightarrow> stripped (res_user r) | _ \<Rightarrow> False) \<and>
   (case verifyEmail cfg0 db0 9000 (generateEmailVerificationToken cfg0 5000 (Str ''u3'')) of
      (Inr u, d) \<Rightarrow> stripped u | _ \<Rightarrow> False) \<and>
   (case getProfile db0 (Str ''u1'') of Inr u \<Rightarrow> stripped u | _ \<Rightarrow> False) \<and>
   (case updateProfile db0 9000 (Str ''u1'') [(''name'', Str ''Ann B.''), (''role'', Str ''admin'')] of
      (Inr u, d) \<Rightarrow> stripped u | _ \<Rightarrow> False)"
proof -
  let ?reg = "register cfg0 db0 ''u4'' 9000 cara"
  let ?log = "login cfg0 db0 9000 (Str ''Ann@x.com'') (Str ''Str0ng!Pass'')"
  let ?ref = "refreshToken cfg0 db0 9000 annToken"
  let ?ver = "verifyEmail cfg0 db0 9000 (generateEmailVerificationToken cfg0 5000 (Str ''u3''))"
  let ?get = "getProfile db0 (Str ''u1'')"
  let ?upd = "updateProfile db0 9000 (Str ''u1'')
                [(''name'', Str ''Ann B.''), (''role'', Str ''admin'')]"
  have ok: "\<not> isl (fst ?reg)" "\<not> isl (fst ?log)" "\<not> isl (fst ?ref)" "\<not> isl (fst ?ver)"
           "\<not> isl ?get" "\<not> isl (fst ?upd)"
    by (simp_all add: service_defs adapter_defs util_defs example_defs)
  have eqs: "?reg = (Inr (projr (fst ?reg)), snd ?reg)" "?log = (Inr (projr (fst ?log)), snd ?log)"
            "?ref = (Inr (projr (fst ?ref)), snd ?ref)" "?ver = (Inr (projr (fst ?ver)), snd ?ver)"
            "?get = Inr (projr ?get)" "?upd = (Inr (projr (fst ?upd)), snd ?upd)"
    using ok by (simp_all add: prod_eq_iff)
  have "stripped (res_user (projr (fst ?reg))) \<and> stripped (res_user (projr (fst ?log))) \<and>
        stripped (res_user (projr (fst ?ref))) \<and> stripped (projr (fst ?ver)) \<and>
        stripped (projr ?get) \<and> stripped (projr (fst ?upd))"
    using returned_users_are_sanitized
            [where cfg = cfg0 and users = db0 and now = 9000 and uuid = "''u4''"
               and userData = cara and ?r1.0 = "projr (fst ?reg)" and ?users1.0 = "snd ?reg"
               and email = "Str ''Ann@x.com''" and password = "Str ''Str0ng!Pass''"
               and ?r2.0 = "projr (fst ?log)" and ?users2.0 = "snd ?log"
               and token = annToken and ?r3.0 = "projr (fst ?ref)" and ?users3.0 = "snd ?ref"
               and vtoken = "generateEmailVerificationToken cfg0 5000 (Str ''u3'')"
               and ?u4.0 = "projr (fst ?ver)" and ?users4.0 = "snd ?ver"
               and userId = "Str ''u1''" and ?u5.0 = "projr ?get"
               and updates = "[(''name'', Str ''Ann B.''), (''role'', Str ''admin'')]"
               and ?u6.0 = "projr (fst ?upd)" and ?users6.0 = "snd ?upd"]
          eqs
    by blast
  then show ?thesis
    using ok by (auto split: prod.splits sum.splits)
qed

section \<open>updateProfile changes the allow-listed fields only\<close>

text \<open>
  C9 (as amended). For every updates object passed to \<open>updateProfile(userId, updates)\<close>
  for an existing user, only the properties \<open>name\<close>, \<open>phone\<close>, \<open>bio\<close> and \<open>avatar\<close> of
  the stored user record, and its \<open>updatedAt\<close> timestamp, which is set to the time of
  the call, may change: every other property, \<open>role\<close>, \<open>email\<close>, \<open>password\<close>,
  \<open>isEmailVerified\<close>, \<open>isActive\<close> and \<open>refreshTokens\<close> among them, is unchanged after
  the call, whatever keys the updates object contains, and no other user is touched.
  For an id that is not in the store the call throws and changes nothing.
\<close>

theorem updateProfile_frame:
  "(users_get users userId = Some u \<longrightarrow>
      \<not> isl (fst (updateProfile users now userId updates)) \<and>
      (\<forall>f. f \<notin> set allowedFields \<and> f \<noteq> ''updatedAt'' \<longrightarrow>
         stored_prop (snd (updateProfile users now userId updates)) userId f = get_prop u f) \<and>
      (\<forall>f \<in> {''role'', ''email'', ''password'', ''isEmailVerified'', ''isActive'',
               ''refreshTokens''}.
         stored_prop (snd (updateProfile users now userId updates)) userId f = get_prop u f) \<and>
      stored_prop (snd (updateProfile users now userId updates)) userId ''updatedAt'' =
        Date now \<and>
      (\<forall>other. other \<noteq> userId \<longrightarrow>
         users_get (snd (updateProfile users now userId updates)) other =
           users_get users other)) \<and>
   (users_get users userId = None \<longrightarrow>
      updateProfile users now userId updates = (Inl (Error ''User not found''), users))"
proof -
  have missing: "updateProfile users now userId updates = (Inl (Error ''User not found''), users)"
    if "users_get users userId = None"
    using updateUser_missing[OF that] by (simp add: updateProfile_def)
  have found:
    "\<not> isl (fst (updateProfile users now userId updates)) \<and>
      (\<forall>f. f \<notin> set allowedFields \<and> f \<noteq> ''updatedAt'' \<longrightarrow>
         stored_prop (snd (updateProfile users now userId updates)) userId f = get_prop u f) \<and>
      stored_prop (snd (updateProfile users now userId updates)) userId ''updatedAt'' =
        Date now \<and>
      (\<forall>other. other \<noteq> userId \<longrightarrow>
         users_get (snd (updateProfile users now userId updates)) other =
           users_get users other)"
    if u: "users_get users userId = Some u"
  proof -
    from updateUser_found[OF u, of now "filteredUpdates updates"]
    obtain k where k: "userId = Str k"
      and upd: "updateUser users now userId (filteredUpdates updates) =
        (Inr (put_prop ''updatedAt'' (Date now)
               (put_prop ''id'' (get_prop u ''id'') (spread u (filteredUpdates updates)))),
         AList.update k
           (put_prop ''updatedAt'' (Date now)
              (put_prop ''id'' (get_prop u ''id'') (spread u (filteredUpdates updates)))) users)"
      by blast
    show ?thesis
      using upd k
      by (auto simp: updateProfile_def stored_prop_def users_get_update update_conv' get_prop_put_prop
            get_prop_spread map_of_filteredUpdates)
  qed
  have listed: "f \<notin> set allowedFields \<and> f \<noteq> ''updatedAt''"
    if "f \<in> {''role'', ''email'', ''password'', ''isEmailVerified'', ''isActive'',
              ''refreshTokens''}" for f
    using that by (auto simp: allowedFields_def)
  show ?thesis
    using missing found listed by blast
qed

theorem updateProfile_frame_witness:
  "users_get db0 (Str ''u1'') = Some ann \<and>
   \<not> isl (fst (updateProfile db0 9000 (Str ''u1'')
                 [(''name'', Str ''Ann B.''), (''role'', Str ''admin'')])) \<and>
   stored_prop (snd (updateProfile db0 9000 (Str ''u1'')
                       [(''name'', Str ''Ann B.''), (''role'', Str ''admin'')]))
     (Str ''u1'') ''role'' = get_prop ann ''role'' \<and>
   get_prop ann ''role'' = Str ''user'' \<and>
   users_get db0 (Str ''u9'') = None \<and>
   updateProfile db0 9000 (Str ''u9'') [(''name'', Str ''Ann B.'')] =
     (Inl (Error ''User not found''), db0)"
proof -
  have found: "users_get db0 (Str ''u1'') = Some ann" and missing: "users_get db0 (Str ''u9'') = None"
    by (simp_all add: db0_def)
  have role: "get_prop ann ''role'' = Str ''user''"
    by (simp add: ann_def get_prop_Cons)
  show ?thesis
    using updateProfile_frame
            [of db0 "Str ''u1''" ann 9000 "[(''name'', Str ''Ann B.''), (''role'', Str ''admin'')]"]
          updateProfile_frame
            [of db0 "Str ''u9''" ann 9000 "[(''name'', Str ''Ann B.'')]"]
          found missing role
    by simp
qed

text \<open>
  C9 as stated fails: a fifth property of the stored record changes, \<open>updatedAt\<close>.
\<close>

theorem updateProfile_changes_updatedAt:
  "stored_prop db0 (Str ''u1'') ''updatedAt'' = Date 5000 \<and>
   \<not> isl (fst (updateProfile db0 9000 (Str ''u1'') [(''name'', Str ''Ann B.'')])) \<and>
   stored_prop (snd (updateProfile db0 9000 (Str ''u1'') [(''name'', Str ''Ann B.'')]))
     (Str ''u1'') ''updatedAt'' = Date 9000"
  by (simp add: updateProfile_def filteredUpdates_def allowedFields_def stored_prop_def
        adapter_defs util_defs example_defs)

end
